theory Spec2Isabelle
  imports Complex_Main "HOL-Library.Multiset" "HOL-Library.AList"
begin

section \<open>JavaScript values used by the stores\<close>

text \<open>
  Strings are character lists; a \<open>Date\<close> (or the ISO string the stores keep in its place) is
  the number of milliseconds since the epoch; an optional property is an \<open>option\<close>, with
  \<open>None\<close> for \<open>undefined\<close>. A number is a double: the integers of magnitude up to
  \<open>2 ^ 53\<close> are doubles, and sums and comparisons of them are exact as long as the result
  is one of them; the model follows the arithmetic of the source within these integers and
  says where it leaves them.
\<close>

definition truthy :: "string option \<Rightarrow> bool" where
  "truthy v = (case v of None \<Rightarrow> False | Some s \<Rightarrow> s \<noteq> [])"

definition js_or :: "string option \<Rightarrow> string option \<Rightarrow> string option" where
  "js_or a b = (if truthy a then a else b)"

definition startsWith :: "string \<Rightarrow> string \<Rightarrow> bool" where
  "startsWith s p = (take (length p) s = p)"

definition is_digit :: "char \<Rightarrow> bool" where
  "is_digit c = (48 \<le> (of_char c :: nat) \<and> (of_char c :: nat) \<le> 57)"

definition digit_val :: "char \<Rightarrow> nat" where
  "digit_val c = of_char c - 48"

definition digit_char :: "nat \<Rightarrow> char" where
  "digit_char d = ''0123456789'' ! d"

definition is_whitespace :: "char \<Rightarrow> bool" where
  "is_whitespace c = ((of_char c :: nat) \<in> {9, 10, 11, 12, 13, 32, 160})"

fun string_of_nat :: "nat \<Rightarrow> string" where
  "string_of_nat n =
     (if n < 10 then [digit_char n] else string_of_nat (n div 10) @ [digit_char (n mod 10)])"

declare string_of_nat.simps [simp del]

definition js_String :: "int \<Rightarrow> string" where
  "js_String n = (if n < 0 then CHR ''-'' # string_of_nat (nat (- n)) else string_of_nat (nat n))"

definition padStart :: "nat \<Rightarrow> char \<Rightarrow> string \<Rightarrow> string" where
  "padStart n c s = replicate (n - length s) c @ s"

definition digits_value :: "string \<Rightarrow> nat" where
  "digits_value ds = fold (\<lambda>c a. 10 * a + digit_val c) ds 0"

text \<open>\<open>parseInt(s, 10)\<close>: leading white space, an optional sign, then the longest run of
  decimal digits; \<open>NaN\<close> (here \<open>None\<close>) when that run is empty.\<close>

definition parseInt :: "string \<Rightarrow> int option" where
  "parseInt s =
     (let t = dropWhile is_whitespace s;
          neg = (t \<noteq> [] \<and> hd t = CHR ''-'');
          u = (if t \<noteq> [] \<and> (hd t = CHR ''-'' \<or> hd t = CHR ''+'') then tl t else t);
          ds = takeWhile is_digit u
      in if ds = [] then None
         else Some (if neg then - int (digits_value ds) else int (digits_value ds)))"

section \<open>Data model\<close>

datatype gender = Laki_laki | Perempuan
datatype cara_masuk = IGD | Rawat_Jalan_Poli | Rujukan_Luar
datatype asal_rujukan = Puskesmas | RS_Lain | Klinik | Dokter_Pribadi
datatype kelas_perawatan = VVIP | VIP | Kelas_1 | Kelas_2 | Kelas_3 | ICU
datatype hubungan_dengan_pasien = Suami | Istri | Orang_Tua | Anak | Saudara | Lainnya
datatype cara_bayar = Umum_Pribadi | BPJS_Kesehatan | Asuransi_Swasta | Jaminan_Perusahaan
datatype kelas_hak_rawat = Hak_Kelas_1 | Hak_Kelas_2 | Hak_Kelas_3
datatype patient_status = Aktif | Keluar

fun kelasPerawatan_str :: "kelas_perawatan \<Rightarrow> string" where
  "kelasPerawatan_str VVIP = ''VVIP''"
| "kelasPerawatan_str VIP = ''VIP''"
| "kelasPerawatan_str Kelas_1 = ''Kelas 1''"
| "kelasPerawatan_str Kelas_2 = ''Kelas 2''"
| "kelasPerawatan_str Kelas_3 = ''Kelas 3''"
| "kelasPerawatan_str ICU = ''ICU''"


fun caraMasuk_str :: "cara_masuk \<Rightarrow> string" where
  "caraMasuk_str IGD = ''IGD''"
| "caraMasuk_str Rawat_Jalan_Poli = ''Rawat Jalan-Poli''"
| "caraMasuk_str Rujukan_Luar = ''Rujukan Luar''"

text \<open>\<open>AdmissionFormData\<close>, the object the admission schema describes.\<close>

record admission_form =
  nik :: string
  namaLengkap :: string
  tempatLahir :: "string option"
  tanggalLahir :: int
  jenisKelamin :: gender
  noHandphone :: string
  alamatDomisili :: string
  tanggalJamMasuk :: int
  caraMasuk :: cara_masuk
  dpjp :: string
  diagnosaMasuk :: string
  keluhanUtama :: "string option"
  asalRujukan :: "asal_rujukan option"
  namaFaskesPerujuk :: "string option"
  nomorSuratRujukan :: "string option"
  tanggalSuratRujukan :: "int option"
  diagnosaRujukan :: "string option"
  fileSuratRujukan :: "string option"
  kelasPerawatan :: kelas_perawatan
  namaRuangan :: string
  nomorBed :: string
  namaPenanggungJawab :: string
  hubunganDenganPasien :: hubungan_dengan_pasien
  noHPPenanggungJawab :: string
  alamatPenanggungJawab :: "string option"
  caraBayar :: cara_bayar
  nomorKartuPolis :: "string option"
  kelasHakRawat :: "kelas_hak_rawat option"
  name :: "string option"
  dateOfBirth :: "int option"
  gender :: "gender option"
  address :: "string option"
  phoneNumber :: "string option"
  emergencyContact :: "string option"

text \<open>\<open>Patient\<close>: the form data and the fields the store generates.\<close>

record patient = admission_form +
  patient_id :: string
  noRM :: string
  nomorRegistrasi :: string
  status :: patient_status
  tanggalKeluar :: "int option"
  registrationDate :: int
  createdAt :: int
  updatedAt :: int

text \<open>
  A partial payload (\<open>Partial<PatientFormData>\<close>, or any object spread over a patient) is the
  list of its own properties, one constructor per key of \<open>Patient\<close>; the keys the form type
  leaves out (\<open>id\<close>, \<open>noRM\<close>, \<open>nomorRegistrasi\<close>, \<open>registrationDate\<close> and the other
  generated ones) are included, since nothing stops a caller from passing them at run time.
\<close>

datatype field_update =
    Set_nik string
  | Set_namaLengkap string
  | Set_tempatLahir "string option"
  | Set_tanggalLahir int
  | Set_jenisKelamin gender
  | Set_noHandphone string
  | Set_alamatDomisili string
  | Set_tanggalJamMasuk int
  | Set_caraMasuk cara_masuk
  | Set_dpjp string
  | Set_diagnosaMasuk string
  | Set_keluhanUtama "string option"
  | Set_asalRujukan "asal_rujukan option"
  | Set_namaFaskesPerujuk "string option"
  | Set_nomorSuratRujukan "string option"
  | Set_tanggalSuratRujukan "int option"
  | Set_diagnosaRujukan "string option"
  | Set_fileSuratRujukan "string option"
  | Set_kelasPerawatan kelas_perawatan
  | Set_namaRuangan string
  | Set_nomorBed string
  | Set_namaPenanggungJawab string
  | Set_hubunganDenganPasien hubungan_dengan_pasien
  | Set_noHPPenanggungJawab string
  | Set_alamatPenanggungJawab "string option"
  | Set_caraBayar cara_bayar
  | Set_nomorKartuPolis "string option"
  | Set_kelasHakRawat "kelas_hak_rawat option"
  | Set_name "string option"
  | Set_dateOfBirth "int option"
  | Set_gender "gender option"
  | Set_address "string option"
  | Set_phoneNumber "string option"
  | Set_emergencyContact "string option"
  | Set_id string
  | Set_noRM string
  | Set_nomorRegistrasi string
  | Set_status patient_status
  | Set_tanggalKeluar "int option"
  | Set_registrationDate int
  | Set_createdAt int
  | Set_updatedAt int

text \<open>Spreading one property, then a whole payload, over a patient object.\<close>

primrec apply_update :: "field_update \<Rightarrow> patient \<Rightarrow> patient" where
  "apply_update (Set_nik v) p = p\<lparr>nik := v\<rparr>"
| "apply_update (Set_namaLengkap v) p = p\<lparr>namaLengkap := v\<rparr>"
| "apply_update (Set_tempatLahir v) p = p\<lparr>tempatLahir := v\<rparr>"
| "apply_update (Set_tanggalLahir v) p = p\<lparr>tanggalLahir := v\<rparr>"
| "apply_update (Set_jenisKelamin v) p = p\<lparr>jenisKelamin := v\<rparr>"
| "apply_update (Set_noHandphone v) p = p\<lparr>noHandphone := v\<rparr>"
| "apply_update (Set_alamatDomisili v) p = p\<lparr>alamatDomisili := v\<rparr>"
| "apply_update (Set_tanggalJamMasuk v) p = p\<lparr>tanggalJamMasuk := v\<rparr>"
| "apply_update (Set_caraMasuk v) p = p\<lparr>caraMasuk := v\<rparr>"
| "apply_update (Set_dpjp v) p = p\<lparr>dpjp := v\<rparr>"
| "apply_update (Set_diagnosaMasuk v) p = p\<lparr>diagnosaMasuk := v\<rparr>"
| "apply_update (Set_keluhanUtama v) p = p\<lparr>keluhanUtama := v\<rparr>"
| "apply_update (Set_asalRujukan v) p = p\<lparr>asalRujukan := v\<rparr>"
| "apply_update (Set_namaFaskesPerujuk v) p = p\<lparr>namaFaskesPerujuk := v\<rparr>"
| "apply_update (Set_nomorSuratRujukan v) p = p\<lparr>nomorSuratRujukan := v\<rparr>"
| "apply_update (Set_tanggalSuratRujukan v) p = p\<lparr>tanggalSuratRujukan := v\<rparr>"
| "apply_update (Set_diagnosaRujukan v) p = p\<lparr>diagnosaRujukan := v\<rparr>"
| "apply_update (Set_fileSuratRujukan v) p = p\<lparr>fileSuratRujukan := v\<rparr>"
| "apply_update (Set_kelasPerawatan v) p = p\<lparr>kelasPerawatan := v\<rparr>"
| "apply_update (Set_namaRuangan v) p = p\<lparr>namaRuangan := v\<rparr>"
| "apply_update (Set_nomorBed v) p = p\<lparr>nomorBed := v\<rparr>"
| "apply_update (Set_namaPenanggungJawab v) p = p\<lparr>namaPenanggungJawab := v\<rparr>"
| "apply_update (Set_hubunganDenganPasien v) p = p\<lparr>hubunganDenganPasien := v\<rparr>"
| "apply_update (Set_noHPPenanggungJawab v) p = p\<lparr>noHPPenanggungJawab := v\<rparr>"
| "apply_update (Set_alamatPenanggungJawab v) p = p\<lparr>alamatPenanggungJawab := v\<rparr>"
| "apply_update (Set_caraBayar v) p = p\<lparr>caraBayar := v\<rparr>"
| "apply_update (Set_nomorKartuPolis v) p = p\<lparr>nomorKartuPolis := v\<rparr>"
| "apply_update (Set_kelasHakRawat v) p = p\<lparr>kelasHakRawat := v\<rparr>"
| "apply_update (Set_name v) p = p\<lparr>name := v\<rparr>"
| "apply_update (Set_dateOfBirth v) p = p\<lparr>dateOfBirth := v\<rparr>"
| "apply_update (Set_gender v) p = p\<lparr>gender := v\<rparr>"
| "apply_update (Set_address v) p = p\<lparr>address := v\<rparr>"
| "apply_update (Set_phoneNumber v) p = p\<lparr>phoneNumber := v\<rparr>"
| "apply_update (Set_emergencyContact v) p = p\<lparr>emergencyContact := v\<rparr>"
| "apply_update (Set_id v) p = p\<lparr>patient_id := v\<rparr>"
| "apply_update (Set_noRM v) p = p\<lparr>noRM := v\<rparr>"
| "apply_update (Set_nomorRegistrasi v) p = p\<lparr>nomorRegistrasi := v\<rparr>"
| "apply_update (Set_status v) p = p\<lparr>status := v\<rparr>"
| "apply_update (Set_tanggalKeluar v) p = p\<lparr>tanggalKeluar := v\<rparr>"
| "apply_update (Set_registrationDate v) p = p\<lparr>registrationDate := v\<rparr>"
| "apply_update (Set_createdAt v) p = p\<lparr>createdAt := v\<rparr>"
| "apply_update (Set_updatedAt v) p = p\<lparr>updatedAt := v\<rparr>"

definition spread :: "patient \<Rightarrow> field_update list \<Rightarrow> patient" where
  "spread p us = fold apply_update us p"

definition is_Set_tanggalJamMasuk :: "field_update \<Rightarrow> bool" where
  "is_Set_tanggalJamMasuk u = (case u of Set_tanggalJamMasuk v \<Rightarrow> True | _ \<Rightarrow> False)"

definition set_fileSuratRujukan :: "field_update \<Rightarrow> string option \<Rightarrow> string option" where
  "set_fileSuratRujukan u acc = (case u of Set_fileSuratRujukan v \<Rightarrow> v | _ \<Rightarrow> acc)"

text \<open>\<open>updates.tanggalJamMasuk\<close> as a condition (a \<open>Date\<close> object is truthy), and
  \<open>updates.fileSuratRujukan\<close>.\<close>

definition updates_tanggalJamMasuk :: "field_update list \<Rightarrow> bool" where
  "updates_tanggalJamMasuk us = list_ex is_Set_tanggalJamMasuk us"

definition updates_fileSuratRujukan :: "field_update list \<Rightarrow> string option" where
  "updates_fileSuratRujukan us = fold set_fileSuratRujukan us None"


section \<open>File storage (\<open>lib/file-storage.ts\<close>)\<close>

record js_file =
  file_name :: string
  file_type :: string
  file_size :: nat

record stored_file =
  sf_id :: string
  sf_name :: string
  sf_type :: string
  sf_size :: nat
  sf_data :: string
  sf_uploadedAt :: int

text \<open>The errors the storage layer and the patient store throw.\<close>

datatype error =
    FileTooLarge
  | FileReadError
  | StorageFull
  | StorageError
  | GagalMenyimpanFileRujukan error

text \<open>
  What the browser contributes to one call of \<open>saveFile\<close>: the clock, the random part of
  the file id, what the \<open>FileReader\<close> delivers (\<open>None\<close> when it reports an error) and
  whether \<open>localStorage.setItem\<close> succeeds.
\<close>

datatype setItem_outcome = Stored | QuotaExceededError | OtherStorageError

record save_env =
  date_now :: int
  random_part :: string
  reader_result :: "string option"
  setItem_result :: setItem_outcome

type_synonym local_storage = "(string \<times> stored_file) list"

definition STORAGE_KEY_PREFIX :: string where
  "STORAGE_KEY_PREFIX = ''simrs_file_''"

definition MAX_FILE_SIZE :: nat where
  "MAX_FILE_SIZE = 5 * 1024 * 1024"

definition saveFile ::
  "save_env \<Rightarrow> local_storage \<Rightarrow> js_file \<Rightarrow> (error + stored_file) \<times> local_storage" where
  "saveFile env ls file =
     (if file_size file > MAX_FILE_SIZE then (Inl FileTooLarge, ls)
      else case reader_result env of
        None \<Rightarrow> (Inl FileReadError, ls)
      | Some base64Data \<Rightarrow>
          let storedFile = \<lparr>sf_id = ''file_'' @ js_String (date_now env) @ ''_'' @ random_part env,
                             sf_name = file_name file, sf_type = file_type file,
                             sf_size = file_size file, sf_data = base64Data,
                             sf_uploadedAt = date_now env\<rparr>
          in case setItem_result env of
               Stored \<Rightarrow>
                 (Inr storedFile,
                  AList.update (STORAGE_KEY_PREFIX @ sf_id storedFile) storedFile ls)
             | QuotaExceededError \<Rightarrow> (Inl StorageFull, ls)
             | OtherStorageError \<Rightarrow> (Inl StorageError, ls))"

definition deleteFile :: "local_storage \<Rightarrow> string \<Rightarrow> bool \<times> local_storage" where
  "deleteFile ls fileId = (True, AList.delete (STORAGE_KEY_PREFIX @ fileId) ls)"

record validation_result =
  valid :: bool
  error_text :: "string option"

definition validateRujukanFile :: "js_file \<Rightarrow> validation_result" where
  "validateRujukanFile file =
     (let allowedTypes = [''application/pdf'', ''image/jpeg'', ''image/jpg'', ''image/png'']
      in if file_type file \<notin> set allowedTypes then
           \<lparr>valid = False,
            error_text = Some ''Format file tidak didukung. Gunakan PDF, JPG, atau PNG.''\<rparr>
         else if file_size file > MAX_FILE_SIZE then
           \<lparr>valid = False, error_text = Some ''Ukuran file terlalu besar. Maksimal 5MB.''\<rparr>
         else \<lparr>valid = True, error_text = None\<rparr>)"

text \<open>
  The upload handler of the admission form (\<open>handleFileUpload\<close> in \<open>visit-section.tsx\<close>),
  with the component state it writes: the kept file, the error shown, and the form value
  \<open>fileSuratRujukan\<close>. The object URL the browser makes for an accepted file is an input.
\<close>

record upload_state =
  uploadedFile :: "js_file option"
  fileError :: string
  form_fileSuratRujukan :: "string option"

definition handleFileUpload :: "string \<Rightarrow> upload_state \<Rightarrow> js_file option \<Rightarrow> upload_state" where
  "handleFileUpload fileUrl st chosen =
     (case chosen of
        None \<Rightarrow> st
      | Some file \<Rightarrow>
          let allowedTypes = [''image/jpeg'', ''image/jpg'', ''image/png'', ''image/gif'',
                              ''application/pdf''];
              maxSize = 5 * 1024 * 1024
          in if file_type file \<notin> set allowedTypes then
               st\<lparr>fileError := ''Tipe file tidak didukung. Hanya gambar (JPEG, PNG, GIF) dan PDF yang diperbolehkan.''\<rparr>
             else if file_size file > maxSize then
               st\<lparr>fileError := ''Ukuran file terlalu besar. Maksimal 5MB.''\<rparr>
             else st\<lparr>fileError := [], uploadedFile := Some file,
                     form_fileSuratRujukan := Some fileUrl\<rparr>)"

section \<open>Record numbers (\<open>generateNoRM\<close>, \<open>generateNomorRegistrasi\<close>)\<close>

text \<open>
  The numbers of the generators are doubles. \<open>parseInt\<close> gives the double nearest to the
  integer it reads, which is that integer up to the magnitude \<open>2 ^ 53\<close>. The loop of both
  generators keeps the highest number after the prefix, starting from 0: a negative
  number never replaces it, whatever its rounding; for a number above \<open>2 ^ 53\<close> the model
  does not follow the double arithmetic and the result is \<open>None\<close>.
\<close>

definition MAX_EXACT :: int where
  "MAX_EXACT = 9007199254740992"

definition maxNumber :: "string \<Rightarrow> string list \<Rightarrow> int option" where
  "maxNumber prefix existing =
     fold (\<lambda>noRM acc.
             case acc of
               None \<Rightarrow> None
             | Some m \<Rightarrow>
                 if startsWith noRM prefix then
                   (case parseInt (drop (length prefix) noRM) of
                      None \<Rightarrow> Some m
                    | Some numberPart \<Rightarrow>
                        if numberPart > MAX_EXACT then None
                        else if numberPart > m then Some numberPart else Some m)
                 else Some m) existing (Some 0)"

text \<open>\<open>maxNumber + 1\<close> in doubles, for a number up to \<open>2 ^ 53\<close>: the sum \<open>2 ^ 53 + 1\<close>
  is not a double and is rounded to \<open>2 ^ 53\<close>.\<close>

definition plus_one :: "int \<Rightarrow> int" where
  "plus_one m = (if m < MAX_EXACT then m + 1 else m)"

definition generateNoRM :: "nat \<Rightarrow> string list \<Rightarrow> string option" where
  "generateNoRM year existingNoRMs =
     (let prefix = ''RM-'' @ string_of_nat year @ ''-''
      in case maxNumber prefix existingNoRMs of
           None \<Rightarrow> None
         | Some m \<Rightarrow>
             (let nextNumber = plus_one m
              in Some (prefix @ padStart 5 (CHR ''0'') (js_String nextNumber))))"

definition generateNomorRegistrasi :: "nat \<Rightarrow> string list \<Rightarrow> string option" where
  "generateNomorRegistrasi year existingNomorRegistrasi =
     (let prefix = ''REG-'' @ string_of_nat year @ ''-''
      in case maxNumber prefix existingNomorRegistrasi of
           None \<Rightarrow> None
         | Some m \<Rightarrow>
             (let nextNumber = plus_one m
              in Some (prefix @ padStart 5 (CHR ''0'') (js_String nextNumber))))"

section \<open>Patient store (\<open>use-patient-store.ts\<close>)\<close>

record patient_store =
  patients :: "patient list"
  isLoaded :: bool
  isLoading :: bool
  userAddedPatients :: "patient list"

definition initial_store :: patient_store where
  "initial_store = \<lparr>patients = [], isLoaded = False, isLoading = False, userAddedPatients = []\<rparr>"

text \<open>\<open>sort((a, b) => dateB - dateA)\<close>: newest admission first; the sort is stable.\<close>

definition sortNewestFirst :: "patient list \<Rightarrow> patient list" where
  "sortNewestFirst ps = sort_key (\<lambda>p. - tanggalJamMasuk p) ps"

text \<open>What one call of \<open>addPatient\<close> takes from outside: the clock, the current year, the
  id \<open>generateId\<close> returns, the environment of \<open>saveFile\<close>, and the two numbers the
  generators return where the model does not follow their arithmetic (a number beyond
  \<open>2 ^ 53\<close> among the existing records).\<close>

record add_env =
  add_now :: int
  add_year :: nat
  add_id :: string
  add_save :: save_env
  add_noRM_beyond :: string
  add_nomorRegistrasi_beyond :: string

text \<open>The state update \<open>addPatient\<close> passes to \<open>set\<close>.\<close>

definition addPatient_set :: "patient \<Rightarrow> patient_store \<Rightarrow> patient_store" where
  "addPatient_set newPatient state =
     (let updatedPatients = sortNewestFirst (patients state @ [newPatient])
      in state\<lparr>patients := updatedPatients,
               userAddedPatients := userAddedPatients state @ [newPatient]\<rparr>)"

definition newPatient_of ::
  "add_env \<Rightarrow> patient_store \<Rightarrow> admission_form \<Rightarrow> string option \<Rightarrow> patient" where
  "newPatient_of env s patientData fileId =
     (let existingNoRMs = map noRM (patients s);
          existingNomorRegistrasi = map nomorRegistrasi (patients s)
      in (admission_form.extend patientData
            (patient.fields (add_id env)
               (case generateNoRM (add_year env) existingNoRMs of
                  Some generated \<Rightarrow> generated | None \<Rightarrow> add_noRM_beyond env)
               (case generateNomorRegistrasi (add_year env) existingNomorRegistrasi of
                  Some generated \<Rightarrow> generated | None \<Rightarrow> add_nomorRegistrasi_beyond env)
               Aktif None (add_now env) (add_now env) (add_now env)))
         \<lparr>fileSuratRujukan := js_or fileId (fileSuratRujukan patientData)\<rparr>)"

definition addPatient ::
  "add_env \<Rightarrow> patient_store \<Rightarrow> local_storage \<Rightarrow> admission_form \<Rightarrow> js_file option
     \<Rightarrow> (error + patient) \<times> patient_store \<times> local_storage" where
  "addPatient env s ls patientData rujukanFile =
     (case rujukanFile of
        None \<Rightarrow>
          (let newPatient = newPatient_of env s patientData None
           in (Inr newPatient, addPatient_set newPatient s, ls))
      | Some file \<Rightarrow>
          (case saveFile (add_save env) ls file of
             (Inl e, ls') \<Rightarrow> (Inl (GagalMenyimpanFileRujukan e), s, ls')
           | (Inr storedFile, ls') \<Rightarrow>
               (let newPatient = newPatient_of env s patientData (Some (sf_id storedFile))
                in (Inr newPatient, addPatient_set newPatient s, ls'))))"

text \<open>The object \<open>updatePatient\<close> builds for a record with the given id.\<close>

definition mergePatient :: "int \<Rightarrow> string option \<Rightarrow> field_update list \<Rightarrow> patient \<Rightarrow> patient" where
  "mergePatient now fileId updates p =
     (spread p updates)
       \<lparr>patient_id := patient_id p,
        noRM := noRM p,
        nomorRegistrasi := nomorRegistrasi p,
        registrationDate := registrationDate p,
        fileSuratRujukan :=
          js_or (js_or fileId (updates_fileSuratRujukan updates)) (fileSuratRujukan p),
        updatedAt := now\<rparr>"

text \<open>The variable a \<open>map\<close> callback assigns for every record with the id: its last value.\<close>

definition lastWithId :: "string \<Rightarrow> patient list \<Rightarrow> patient option" where
  "lastWithId i ps =
     (case filter (\<lambda>p. patient_id p = i) ps of [] \<Rightarrow> None | q # qs \<Rightarrow> Some (last (q # qs)))"

record update_env =
  upd_now :: int
  upd_save :: save_env

text \<open>The state update \<open>updatePatient\<close> passes to \<open>set\<close>, with the value it leaves in
  \<open>updatedPatient\<close>.\<close>

definition updatePatient_set ::
  "int \<Rightarrow> string option \<Rightarrow> string \<Rightarrow> field_update list \<Rightarrow> patient_store
     \<Rightarrow> patient option \<times> patient_store" where
  "updatePatient_set now fileId i updates state =
     (let mapped = map (\<lambda>patient. if patient_id patient = i
                                 then mergePatient now fileId updates patient
                                 else patient) (patients state);
          updatedPatient = map_option (mergePatient now fileId updates)
                             (lastWithId i (patients state));
          updatedPatients = (if updates_tanggalJamMasuk updates
                             then sortNewestFirst mapped else mapped)
      in (updatedPatient,
          state\<lparr>patients := updatedPatients,
                userAddedPatients :=
                  map (\<lambda>patient. case updatedPatient of
                                    Some u \<Rightarrow> if patient_id patient = i then u else patient
                                  | None \<Rightarrow> patient) (userAddedPatients state)\<rparr>))"

definition updatePatient ::
  "update_env \<Rightarrow> patient_store \<Rightarrow> local_storage \<Rightarrow> string \<Rightarrow> field_update list
     \<Rightarrow> js_file option \<Rightarrow> (error + patient option) \<times> patient_store \<times> local_storage" where
  "updatePatient env s ls i updates rujukanFile =
     (case rujukanFile of
        None \<Rightarrow>
          (let (updatedPatient, s') = updatePatient_set (upd_now env) None i updates s
           in (Inr updatedPatient, s', ls))
      | Some file \<Rightarrow>
          (case saveFile (upd_save env) ls file of
             (Inl e, ls') \<Rightarrow> (Inl (GagalMenyimpanFileRujukan e), s, ls')
           | (Inr storedFile, ls') \<Rightarrow>
               (let ls'' = (case find (\<lambda>p. patient_id p = i) (patients s) of
                              None \<Rightarrow> ls'
                            | Some oldPatient \<Rightarrow>
                                if truthy (fileSuratRujukan oldPatient)
                                then snd (deleteFile ls' (the (fileSuratRujukan oldPatient)))
                                else ls');
                    (updatedPatient, s') =
                       updatePatient_set (upd_now env) (Some (sf_id storedFile)) i updates s
                in (Inr updatedPatient, s', ls''))))"

definition deletePatient ::
  "patient_store \<Rightarrow> local_storage \<Rightarrow> string \<Rightarrow> bool \<times> patient_store \<times> local_storage" where
  "deletePatient s ls i =
     (case find (\<lambda>p. patient_id p = i) (patients s) of
        None \<Rightarrow> (False, s, ls)
      | Some patient \<Rightarrow>
          (True,
           s\<lparr>patients := filter (\<lambda>p. patient_id p \<noteq> i) (patients s),
             userAddedPatients := filter (\<lambda>p. patient_id p \<noteq> i) (userAddedPatients s)\<rparr>,
           if truthy (fileSuratRujukan patient)
           then snd (deleteFile ls (the (fileSuratRujukan patient))) else ls))"

definition dischargePatient ::
  "int \<Rightarrow> patient_store \<Rightarrow> string \<Rightarrow> int \<Rightarrow> patient option \<times> patient_store" where
  "dischargePatient now s i tanggalKeluar' =
     (let discharge = (\<lambda>patient. patient\<lparr>status := Keluar, tanggalKeluar := Some tanggalKeluar',
                                          updatedAt := now\<rparr>)
      in (map_option discharge (lastWithId i (patients s)),
          s\<lparr>patients := map (\<lambda>patient. if patient_id patient = i then discharge patient
                                         else patient) (patients s)\<rparr>))"

text \<open>
  \<open>loadMockData\<close> awaits the fetch between its guard and its final \<open>set\<close>, so it is two
  steps: the guard that raises \<open>isLoading\<close> (\<open>None\<close> when the call returns at once), and the
  completion with the fetched records (\<open>None\<close> when the fetch failed), which reads
  \<open>userAddedPatients\<close> as it is at that moment.
\<close>

definition loadMockData_begin :: "patient_store \<Rightarrow> patient_store option" where
  "loadMockData_begin s =
     (if isLoading s then None
      else if isLoaded s \<and> length (patients s) > 0 then None
      else Some (s\<lparr>isLoading := True\<rparr>))"

definition loadMockData_complete :: "patient list option \<Rightarrow> patient_store \<Rightarrow> patient_store" where
  "loadMockData_complete fetched s =
     (case fetched of
        Some mockPatients \<Rightarrow>
          s\<lparr>patients := sortNewestFirst (mockPatients @ userAddedPatients s),
            isLoaded := True, isLoading := False\<rparr>
      | None \<Rightarrow>
          s\<lparr>patients := userAddedPatients s, isLoaded := True, isLoading := False\<rparr>)"

definition loadMockData :: "patient list option \<Rightarrow> patient_store \<Rightarrow> patient_store" where
  "loadMockData fetched s =
     (case loadMockData_begin s of None \<Rightarrow> s | Some s' \<Rightarrow> loadMockData_complete fetched s')"


subsection \<open>Calendar days\<close>

text \<open>
  A \<open>Date\<close> reads and sets its fields in the local time zone. A zone is what the language
  takes from it: the offset of local time from UTC at a moment, and the offset used to
  turn a local time back into a moment (the two differ around a change of offset). Local
  time is the moment plus the offset; a setter rebuilds the local time from its fields
  and turns it back. \<open>setHours(0, 0, 0, 0)\<close> keeps the local calendar day and sets the
  time of day to its first millisecond, \<open>setHours(23, 59, 59, 999)\<close> to its last, and
  \<open>setDate(getDate() + k)\<close> moves the local time by \<open>k\<close> calendar days.
  \<open>toISOString().split('T')[0]\<close> is the UTC calendar date; a date is identified with its
  number of days since the epoch, the order of the \<open>YYYY-MM-DD\<close> strings being the order
  of these numbers.
\<close>

record zone =
  offsetAt :: "int \<Rightarrow> int"
  offsetOfLocal :: "int \<Rightarrow> int"

definition DAY :: int where
  "DAY = 86400000"

definition LocalTime :: "zone \<Rightarrow> int \<Rightarrow> int" where
  "LocalTime z t = t + offsetAt z t"

definition UTC :: "zone \<Rightarrow> int \<Rightarrow> int" where
  "UTC z w = w - offsetOfLocal z w"

definition startOfDay :: "zone \<Rightarrow> int \<Rightarrow> int" where
  "startOfDay z t = UTC z (LocalTime z t div DAY * DAY)"


definition addDays :: "zone \<Rightarrow> int \<Rightarrow> int \<Rightarrow> int" where
  "addDays z k t = UTC z (LocalTime z t + k * DAY)"

definition isoDate :: "int \<Rightarrow> int" where
  "isoDate t = t div DAY"

subsection \<open>Filtering\<close>



subsection \<open>Admission trend\<close>

text \<open>A \<open>Map\<close> or a plain object used as a counter table is an association list in insertion
  order: \<open>AList.update\<close> overwrites an existing key in place and appends a new one.\<close>

record trend_cell =
  cell_count :: nat
  cell_byCaraMasuk :: "(string \<times> nat) list"

record trend_entry =
  trend_date :: int
  trend_count :: nat
  trend_byCaraMasuk :: "(string \<times> nat) list"

definition counter_get :: "('k \<times> nat) list \<Rightarrow> 'k \<Rightarrow> nat" where
  "counter_get m k = (case map_of m k of None \<Rightarrow> 0 | Some n \<Rightarrow> n)"

definition countAdmission :: "patient \<Rightarrow> (int \<times> trend_cell) list \<Rightarrow> (int \<times> trend_cell) list" where
  "countAdmission patient dateMap =
     (let dateStr = isoDate (tanggalJamMasuk patient)
      in case map_of dateMap dateStr of
           None \<Rightarrow> dateMap
         | Some entry \<Rightarrow>
             AList.update dateStr
               \<lparr>cell_count = cell_count entry + 1,
                cell_byCaraMasuk =
                  AList.update (caraMasuk_str (caraMasuk patient))
                    (counter_get (cell_byCaraMasuk entry) (caraMasuk_str (caraMasuk patient)) + 1)
                    (cell_byCaraMasuk entry)\<rparr>
               dateMap)"

definition getAdmissionTrend :: "zone \<Rightarrow> int \<Rightarrow> patient_store \<Rightarrow> nat \<Rightarrow> trend_entry list" where
  "getAdmissionTrend z now s days =
     (let startDate = startOfDay z (addDays z (- int days) now);
          recentPatients = filter (\<lambda>patient. tanggalJamMasuk patient \<ge> startDate) (patients s);
          dateMap = fold (\<lambda>i m. AList.update (isoDate (addDays z (int i) startDate))
                                    \<lparr>cell_count = 0, cell_byCaraMasuk = []\<rparr> m) [0..<days] [];
          dateMap = fold countAdmission recentPatients dateMap
      in sort_key trend_date
           (map (\<lambda>(date, data). \<lparr>trend_date = date, trend_count = cell_count data,
                                  trend_byCaraMasuk = cell_byCaraMasuk data\<rparr>) dateMap))"

subsection \<open>Bed occupancy\<close>

record occupancy =
  occ_kelas :: string
  occ_total :: int
  occ_occupied :: nat
  occ_percentage :: int

definition careClasses :: "string list" where
  "careClasses = [''VVIP'', ''VIP'', ''Kelas 1'', ''Kelas 2'', ''Kelas 3'', ''ICU'']"

definition occupiedByClass :: "patient list \<Rightarrow> (string \<times> nat) list" where
  "occupiedByClass ps =
     fold (\<lambda>patient m.
             let kelas = kelasPerawatan_str (kelasPerawatan patient)
             in AList.update kelas (counter_get m kelas + 1) m)
          (filter (\<lambda>patient. status patient = Aktif) ps) []"

definition getBedOccupancyByClass :: "patient_store \<Rightarrow> occupancy list" where
  "getBedOccupancyByClass s =
     (let byClass = occupiedByClass (patients s)
      in map (\<lambda>kelas.
                let occupied = counter_get byClass kelas;
                    m = max (int occupied) \<lceil>real occupied * 1.5\<rceil>;
                    total = (if m = 0 then 10 else m);
                    percentage = (if total > 0
                                  then round (real occupied / real_of_int total * 100) else 0)
                in \<lparr>occ_kelas = kelas, occ_total = total, occ_occupied = occupied,
                    occ_percentage = percentage\<rparr>) careClasses)"

section \<open>Admission schema (\<open>patient-schema.ts\<close>)\<close>

text \<open>
  The schema is an object schema followed by three refinements. The enumerations and the
  dates are typed in the model, so the issues a field can raise are those of its string
  and date checks; they do not stop the parse, and every refinement then runs on the
  object. A parse succeeds when no issue was raised.
\<close>

record issue =
  issue_path :: "string list"
  issue_message :: string

definition check_min :: "nat \<Rightarrow> string \<Rightarrow> string \<Rightarrow> string \<Rightarrow> issue list" where
  "check_min n key msg v =
     (if length v < n then [\<lparr>issue_path = [key], issue_message = msg\<rparr>] else [])"

definition check_max :: "nat \<Rightarrow> string \<Rightarrow> string \<Rightarrow> string \<Rightarrow> issue list" where
  "check_max n key msg v =
     (if length v > n then [\<lparr>issue_path = [key], issue_message = msg\<rparr>] else [])"

text \<open>The regular expressions \<open>/^\d{16}$/\<close> and \<open>/^[0-9]{10,15}$/\<close>: between \<open>lo\<close> and
  \<open>hi\<close> characters, all of them decimal digits.\<close>

definition check_digits :: "nat \<Rightarrow> nat \<Rightarrow> string \<Rightarrow> string \<Rightarrow> string \<Rightarrow> issue list" where
  "check_digits lo hi key msg v =
     (if lo \<le> length v \<and> length v \<le> hi \<and> list_all is_digit v then []
      else [\<lparr>issue_path = [key], issue_message = msg\<rparr>])"

definition check_optional :: "(string \<Rightarrow> issue list) \<Rightarrow> string option \<Rightarrow> issue list" where
  "check_optional c v = (case v of None \<Rightarrow> [] | Some x \<Rightarrow> c x)"

text \<open>The issues of the fields, in the order of the keys; \<open>loaded\<close> is the value of
  \<open>new Date()\<close> when the module was loaded.\<close>

definition fieldIssues :: "int \<Rightarrow> admission_form \<Rightarrow> issue list" where
  "fieldIssues loaded data =
     check_min 1 ''nik'' ''NIK tidak boleh kosong. Silakan masukkan NIK pasien.'' (nik data)
     @ check_digits 16 16 ''nik''
         ''NIK harus terdiri dari 16 digit angka. Contoh: 3201234567890123'' (nik data)
     @ check_min 2 ''namaLengkap'' ''Nama terlalu pendek. Minimal 2 karakter.'' (namaLengkap data)
     @ check_max 100 ''namaLengkap'' ''Nama terlalu panjang. Maksimal 100 karakter.''
         (namaLengkap data)
     @ check_optional (check_max 100 ''tempatLahir''
         ''Tempat lahir terlalu panjang. Maksimal 100 karakter.'') (tempatLahir data)
     @ (if tanggalLahir data > loaded
        then [\<lparr>issue_path = [''tanggalLahir''], issue_message =
                 ''Tanggal lahir tidak boleh di masa depan. Silakan pilih tanggal yang benar.''\<rparr>]
        else [])
     @ check_min 1 ''noHandphone''
         ''No. HP tidak boleh kosong. Silakan masukkan nomor handphone.'' (noHandphone data)
     @ check_digits 10 15 ''noHandphone''
         ''No. HP harus terdiri dari 10-15 digit angka. Contoh: 081234567890'' (noHandphone data)
     @ check_min 10 ''alamatDomisili''
         ''Alamat terlalu pendek. Minimal 10 karakter untuk alamat lengkap.'' (alamatDomisili data)
     @ check_max 500 ''alamatDomisili'' ''Alamat terlalu panjang. Maksimal 500 karakter.''
         (alamatDomisili data)
     @ check_min 1 ''dpjp''
         ''DPJP belum dipilih. Silakan pilih dokter penanggung jawab pasien.'' (dpjp data)
     @ check_min 3 ''diagnosaMasuk'' ''Diagnosa terlalu pendek. Minimal 3 karakter.''
         (diagnosaMasuk data)
     @ check_max 500 ''diagnosaMasuk'' ''Diagnosa terlalu panjang. Maksimal 500 karakter.''
         (diagnosaMasuk data)
     @ check_optional (check_max 1000 ''keluhanUtama''
         ''Keluhan utama terlalu panjang. Maksimal 1000 karakter.'') (keluhanUtama data)
     @ check_optional (check_max 200 ''namaFaskesPerujuk''
         ''Nama faskes perujuk terlalu panjang. Maksimal 200 karakter.'') (namaFaskesPerujuk data)
     @ check_optional (check_max 100 ''nomorSuratRujukan''
         ''Nomor surat rujukan terlalu panjang. Maksimal 100 karakter.'') (nomorSuratRujukan data)
     @ check_optional (check_max 500 ''diagnosaRujukan''
         ''Diagnosa rujukan terlalu panjang. Maksimal 500 karakter.'') (diagnosaRujukan data)
     @ check_min 1 ''namaRuangan''
         ''Ruangan belum dipilih. Silakan pilih ruangan untuk pasien.'' (namaRuangan data)
     @ check_min 1 ''nomorBed''
         ''Bed belum dipilih. Silakan pilih nomor bed untuk pasien.'' (nomorBed data)
     @ check_min 2 ''namaPenanggungJawab''
         ''Nama penanggung jawab terlalu pendek. Minimal 2 karakter.'' (namaPenanggungJawab data)
     @ check_max 100 ''namaPenanggungJawab''
         ''Nama penanggung jawab terlalu panjang. Maksimal 100 karakter.''
         (namaPenanggungJawab data)
     @ check_min 1 ''noHPPenanggungJawab'' ''No. HP penanggung jawab tidak boleh kosong.''
         (noHPPenanggungJawab data)
     @ check_digits 10 15 ''noHPPenanggungJawab''
         ''No. HP penanggung jawab harus terdiri dari 10-15 digit angka. Contoh: 081234567890''
         (noHPPenanggungJawab data)
     @ check_optional (check_max 500 ''alamatPenanggungJawab''
         ''Alamat penanggung jawab terlalu panjang. Maksimal 500 karakter.'')
         (alamatPenanggungJawab data)
     @ check_optional (check_max 100 ''nomorKartuPolis''
         ''Nomor kartu/polis terlalu panjang. Maksimal 100 karakter.'') (nomorKartuPolis data)"

text \<open>The three refinements, as the functions passed to \<open>refine\<close>.\<close>

definition refine_rujukan :: "admission_form \<Rightarrow> bool" where
  "refine_rujukan data =
     (if caraMasuk data = Rujukan_Luar
      then asalRujukan data \<noteq> None \<and> truthy (namaFaskesPerujuk data)
           \<and> truthy (nomorSuratRujukan data) \<and> tanggalSuratRujukan data \<noteq> None
      else True)"

definition refine_nomorKartuPolis :: "admission_form \<Rightarrow> bool" where
  "refine_nomorKartuPolis data =
     (if caraBayar data \<noteq> Umum_Pribadi
      then (case nomorKartuPolis data of None \<Rightarrow> False | Some v \<Rightarrow> v \<noteq> [] \<and> length v > 0)
      else True)"

definition refine_kelasHakRawat :: "admission_form \<Rightarrow> bool" where
  "refine_kelasHakRawat data =
     (if caraBayar data = BPJS_Kesehatan then kelasHakRawat data \<noteq> None else True)"

text \<open>The issue each refinement raises when its function returns a falsy value.\<close>

definition rujukan_issue :: issue where
  "rujukan_issue =
     \<lparr>issue_path = [''asalRujukan''], issue_message =
        ''Data rujukan lengkap wajib diisi untuk pasien rujukan luar. Pastikan asal rujukan, nama faskes, nomor surat, dan tanggal surat rujukan sudah terisi.''\<rparr>"

definition nomorKartuPolis_issue :: issue where
  "nomorKartuPolis_issue =
     \<lparr>issue_path = [''nomorKartuPolis''], issue_message =
        ''Nomor kartu/polis tidak boleh kosong untuk pembayaran BPJS atau asuransi. Silakan masukkan nomor kartu/polis.''\<rparr>"

definition kelasHakRawat_issue :: issue where
  "kelasHakRawat_issue =
     \<lparr>issue_path = [''kelasHakRawat''], issue_message =
        ''Kelas hak rawat belum dipilih. Untuk BPJS Kesehatan, silakan pilih kelas hak rawat pasien.''\<rparr>"

definition refinementIssues :: "admission_form \<Rightarrow> issue list" where
  "refinementIssues data =
     (if refine_rujukan data then [] else [rujukan_issue])
     @ (if refine_nomorKartuPolis data then [] else [nomorKartuPolis_issue])
     @ (if refine_kelasHakRawat data then [] else [kelasHakRawat_issue])"

definition admissionSchema_issues :: "int \<Rightarrow> admission_form \<Rightarrow> issue list" where
  "admissionSchema_issues loaded data = fieldIssues loaded data @ refinementIssues data"

definition admissionSchema_safeParse :: "int \<Rightarrow> admission_form \<Rightarrow> issue list + admission_form" where
  "admissionSchema_safeParse loaded data =
     (case admissionSchema_issues loaded data of [] \<Rightarrow> Inr data | i # is \<Rightarrow> Inl (i # is))"

section \<open>Room store (\<open>use-room-store.ts\<close>)\<close>

datatype room_status = Tersedia | Terisi | Maintenance | Reservasi

record room =
  room_id :: string
  roomNumber :: string
  roomType :: string
  room_floor :: int
  capacity :: int
  room_status :: room_status
  assignedPatientId :: "string option"
  room_createdAt :: int
  room_updatedAt :: int

record room_store =
  rooms :: "room list"
  rooms_isLoaded :: bool
  rooms_isLoading :: bool
  userAddedRooms :: "room list"

definition getRoomById :: "room_store \<Rightarrow> string \<Rightarrow> room option" where
  "getRoomById s i = find (\<lambda>room. room_id room = i) (rooms s)"

definition canDeleteRoom :: "room_store \<Rightarrow> string \<Rightarrow> bool" where
  "canDeleteRoom s i =
     (case getRoomById s i of
        None \<Rightarrow> False
      | Some room \<Rightarrow> room_status room \<noteq> Terisi)"

definition deleteRoom :: "room_store \<Rightarrow> string \<Rightarrow> bool \<times> room_store" where
  "deleteRoom s i =
     (case find (\<lambda>r. room_id r = i) (rooms s) of
        None \<Rightarrow> (False, s)
      | Some room \<Rightarrow>
          if \<not> canDeleteRoom s i then (False, s)
          else (True,
                s\<lparr>rooms := filter (\<lambda>room. room_id room \<noteq> i) (rooms s),
                  userAddedRooms := filter (\<lambda>room. room_id room \<noteq> i) (userAddedRooms s)\<rparr>))"

section \<open>Notions used to state the properties\<close>

text \<open>The four fields an update has to keep: id, medical record number, registration
  number and registration date.\<close>

definition identity_of :: "patient \<Rightarrow> string \<times> string \<times> string \<times> int" where
  "identity_of p = (patient_id p, noRM p, nomorRegistrasi p, registrationDate p)"

text \<open>
  The store is wrapped in \<open>persist\<close> with \<open>partialize\<close> keeping \<open>userAddedPatients\<close> alone:
  a session starts in the initial state with the saved records put back into that field,
  and with \<open>patients\<close> empty. A first session has nothing saved.
\<close>

definition rehydrated :: "patient list \<Rightarrow> patient_store" where
  "rehydrated saved = initial_store\<lparr>userAddedPatients := saved\<rparr>"

text \<open>
  One public operation of the patient store. \<open>loadMockData\<close> is its two steps, so that
  other operations may run while the fetch is pending; the browser storage an operation
  meets is arbitrary. The reachable states are those the operations reach from the start
  of a session.
\<close>

inductive step :: "patient_store \<Rightarrow> patient_store \<Rightarrow> bool" where
  load_begin: "loadMockData_begin s = Some s' \<Longrightarrow> step s s'"
| load_complete: "isLoading s \<Longrightarrow> step s (loadMockData_complete fetched s)"
| add: "addPatient env s ls patientData rujukanFile = (r, s', ls') \<Longrightarrow> step s s'"
| update: "updatePatient uenv s ls i updates rujukanFile = (ur, s', ls') \<Longrightarrow> step s s'"
| delete: "deletePatient s ls i = (b, s', ls') \<Longrightarrow> step s s'"
| discharge: "dischargePatient now s i t = (dr, s') \<Longrightarrow> step s s'"

definition reachable :: "patient_store \<Rightarrow> bool" where
  "reachable s = (\<exists>saved. rtranclp step (rehydrated saved) s)"

text \<open>Every user-added record has a record with its id in the merged collection.\<close>

definition contained :: "patient_store \<Rightarrow> bool" where
  "contained s =
     (\<forall>u \<in> set (userAddedPatients s). \<exists>p \<in> set (patients s). patient_id p = patient_id u)"

subsection \<open>Example data\<close>

definition sample_form :: admission_form where
  "sample_form =
     \<lparr>nik = ''3201234567890123'', namaLengkap = ''Budi Santoso'', tempatLahir = Some ''Bandung'',
      tanggalLahir = 0, jenisKelamin = Laki_laki, noHandphone = ''081234567890'',
      alamatDomisili = ''Jl. Merdeka No. 1'', tanggalJamMasuk = 1000, caraMasuk = IGD,
      dpjp = ''dr. Andi'', diagnosaMasuk = ''Demam'', keluhanUtama = None,
      asalRujukan = None, namaFaskesPerujuk = None, nomorSuratRujukan = None,
      tanggalSuratRujukan = None, diagnosaRujukan = None, fileSuratRujukan = None,
      kelasPerawatan = VIP, namaRuangan = ''Mawar'', nomorBed = ''B1'',
      namaPenanggungJawab = ''Siti'', hubunganDenganPasien = Istri,
      noHPPenanggungJawab = ''081234567891'', alamatPenanggungJawab = None,
      caraBayar = BPJS_Kesehatan, nomorKartuPolis = Some ''0001234567890'',
      kelasHakRawat = None, name = None, dateOfBirth = None, gender = None, address = None,
      phoneNumber = None, emergencyContact = None\<rparr>"

definition sample_save_env :: save_env where
  "sample_save_env = \<lparr>date_now = 1700, random_part = ''k3j9x2a1b'',
                       reader_result = Some ''data:text/plain;base64,aGVsbG8='',
                       setItem_result = Stored\<rparr>"

definition sample_add_env :: "string \<Rightarrow> add_env" where
  "sample_add_env i = \<lparr>add_now = 1700, add_year = 2026, add_id = i,
                        add_save = sample_save_env, add_noRM_beyond = ''RM-2026-Infinity'',
                        add_nomorRegistrasi_beyond = ''REG-2026-Infinity''\<rparr>"

definition sample_update_env :: update_env where
  "sample_update_env = \<lparr>upd_now = 1800, upd_save = sample_save_env\<rparr>"

definition sample_patient :: patient where
  "sample_patient =
     admission_form.extend sample_form
       (patient.fields ''p1'' ''RM-2026-00001'' ''REG-2026-00001'' Aktif None 1700 1700 1700)"

definition sample_store :: patient_store where
  "sample_store = \<lparr>patients = [sample_patient], isLoaded = True, isLoading = False,
                    userAddedPatients = [sample_patient]\<rparr>"

definition sample_updates :: "field_update list" where
  "sample_updates =
     [Set_id ''p9'', Set_noRM ''RM-1999-00007'', Set_nomorRegistrasi ''REG-1999-00007'',
      Set_registrationDate 5, Set_tanggalJamMasuk 7, Set_dpjp ''dr. Budi'']"


definition dayStart :: "zone \<Rightarrow> int \<Rightarrow> int" where
  "dayStart z d = UTC z (d * DAY)"

definition dayEnd :: "zone \<Rightarrow> int \<Rightarrow> int" where
  "dayEnd z d = UTC z (d * DAY + 86399999)"

definition zone_ok :: "zone \<Rightarrow> bool" where
  "zone_ok z = ((\<forall>d. dayStart z d \<le> dayEnd z d) \<and> (\<forall>d d'. d < d' \<longrightarrow> dayEnd z d < dayStart z d'))"

text \<open>A zone at a constant offset from UTC, and the zone of London around the change to
  summer time of 29 March 2026, at 01:00 UTC.\<close>

definition fixed_zone :: "int \<Rightarrow> zone" where
  "fixed_zone tz = \<lparr>offsetAt = (\<lambda>t. tz), offsetOfLocal = (\<lambda>w. tz)\<rparr>"

definition london_zone :: zone where
  "london_zone =
     \<lparr>offsetAt = (\<lambda>t. if 1774746000000 \<le> t then 3600000 else 0),
      offsetOfLocal = (\<lambda>w. if 1774749600000 \<le> w then 3600000 else 0)\<rparr>"


text \<open>The occupied beds of a care class and the estimate of its total beds, as the
  specification words them.\<close>

definition occupiedIn :: "patient list \<Rightarrow> string \<Rightarrow> nat" where
  "occupiedIn ps k =
     length (filter (\<lambda>p. status p = Aktif \<and> kelasPerawatan_str (kelasPerawatan p) = k) ps)"

definition estimatedTotal :: "nat \<Rightarrow> int" where
  "estimatedTotal occupied =
     (if occupied = 0 then 10 else max (int occupied) \<lceil>real occupied * 1.5\<rceil>)"




section \<open>Notions for the record numbers\<close>


text \<open>The number after the prefix of the year in a record number, when there is one.\<close>

definition suffix_of :: "string \<Rightarrow> string \<Rightarrow> int option" where
  "suffix_of prefix number =
     (if startsWith number prefix then parseInt (drop (length prefix) number) else None)"


definition RM_prefix :: "nat \<Rightarrow> string" where
  "RM_prefix year = ''RM-'' @ string_of_nat year @ ''-''"








section \<open>Room store: deleting a room\<close>

lemma find_room_by_id:
  "distinct (map room_id rs) \<Longrightarrow> r \<in> set rs \<Longrightarrow> find (\<lambda>x. room_id x = room_id r) rs = Some r"
  by (induction rs) (auto simp: image_iff)

lemma filter_other_rooms:
  "distinct (map room_id rs) \<Longrightarrow> r \<in> set rs \<Longrightarrow>
   filter (\<lambda>x. room_id x \<noteq> room_id r) rs = remove1 r rs"
proof (induction rs)
  case Nil
  then show ?case by simp
next
  case (Cons a rs)
  show ?case
  proof (cases "a = r")
    case True
    with Cons.prems have "\<forall>x\<in>set rs. room_id x \<noteq> room_id r" by (auto simp: image_iff)
    then have "filter (\<lambda>x. room_id x \<noteq> room_id r) rs = rs" by (simp add: filter_id_conv)
    with True show ?thesis by simp
  next
    case False
    with Cons show ?thesis by (auto simp: image_iff)
  qed
qed


text \<open>
  Claim C3. In a room store whose room ids are distinct, \<open>deleteRoom\<close> on the id of a room
  with status \<open>Terisi\<close> returns false and leaves the whole store as it was; on the id of a
  room with any other status it returns true, the collection loses that one record
  (its length drops by one) and every other room stays in place, unchanged.
\<close>

theorem deleteRoom_occupied_guard:
  assumes "distinct (map room_id (rooms s))" and "r \<in> set (rooms s)"
  shows "(room_status r = Terisi \<longrightarrow> deleteRoom s (room_id r) = (False, s)) \<and>
         (room_status r \<noteq> Terisi \<longrightarrow>
            fst (deleteRoom s (room_id r)) = True \<and>
            rooms (snd (deleteRoom s (room_id r))) = remove1 r (rooms s) \<and>
            length (rooms (snd (deleteRoom s (room_id r)))) + 1 = length (rooms s) \<and>
            (\<forall>q \<in> set (rooms s). q \<noteq> r \<longrightarrow> q \<in> set (rooms (snd (deleteRoom s (room_id r))))))"
proof -
  have f: "find (\<lambda>x. room_id x = room_id r) (rooms s) = Some r"
    using assms by (rule find_room_by_id)
  have g: "filter (\<lambda>x. room_id x \<noteq> room_id r) (rooms s) = remove1 r (rooms s)"
    using assms by (rule filter_other_rooms)
  have l: "length (remove1 r (rooms s)) + 1 = length (rooms s)"
  proof -
    from assms(2) have "length (rooms s) > 0" by (cases "rooms s") auto
    with assms(2) show ?thesis by (simp add: length_remove1)
  qed
  show ?thesis
    using f g l by (auto simp: deleteRoom_def canDeleteRoom_def getRoomById_def)
qed

theorem deleteRoom_occupied_guard_witness:
  "deleteRoom
     \<lparr>rooms = [\<lparr>room_id = ''r1'', roomNumber = ''101'', roomType = ''VIP'', room_floor = 1,
                capacity = 1, room_status = Terisi, assignedPatientId = Some ''p1'',
                room_createdAt = 0, room_updatedAt = 0\<rparr>,
               \<lparr>room_id = ''r2'', roomNumber = ''102'', roomType = ''VIP'', room_floor = 1,
                capacity = 1, room_status = Tersedia, assignedPatientId = None,
                room_createdAt = 0, room_updatedAt = 0\<rparr>],
      rooms_isLoaded = True, rooms_isLoading = False, userAddedRooms = []\<rparr> ''r1''
   = (False,
      \<lparr>rooms = [\<lparr>room_id = ''r1'', roomNumber = ''101'', roomType = ''VIP'', room_floor = 1,
                capacity = 1, room_status = Terisi, assignedPatientId = Some ''p1'',
                room_createdAt = 0, room_updatedAt = 0\<rparr>,
               \<lparr>room_id = ''r2'', roomNumber = ''102'', roomType = ''VIP'', room_floor = 1,
                capacity = 1, room_status = Tersedia, assignedPatientId = None,
                room_createdAt = 0, room_updatedAt = 0\<rparr>],
      rooms_isLoaded = True, rooms_isLoading = False, userAddedRooms = []\<rparr>)
   \<and> rooms (snd (deleteRoom
     \<lparr>rooms = [\<lparr>room_id = ''r1'', roomNumber = ''101'', roomType = ''VIP'', room_floor = 1,
                capacity = 1, room_status = Terisi, assignedPatientId = Some ''p1'',
                room_createdAt = 0, room_updatedAt = 0\<rparr>,
               \<lparr>room_id = ''r2'', roomNumber = ''102'', roomType = ''VIP'', room_floor = 1,
                capacity = 1, room_status = Tersedia, assignedPatientId = None,
                room_createdAt = 0, room_updatedAt = 0\<rparr>],
      rooms_isLoaded = True, rooms_isLoading = False, userAddedRooms = []\<rparr> ''r2''))
   = [\<lparr>room_id = ''r1'', roomNumber = ''101'', roomType = ''VIP'', room_floor = 1,
                capacity = 1, room_status = Terisi, assignedPatientId = Some ''p1'',
                room_createdAt = 0, room_updatedAt = 0\<rparr>]"
  using deleteRoom_occupied_guard
    [of "\<lparr>rooms = [\<lparr>room_id = ''r1'', roomNumber = ''101'', roomType = ''VIP'', room_floor = 1,
                capacity = 1, room_status = Terisi, assignedPatientId = Some ''p1'',
                room_createdAt = 0, room_updatedAt = 0\<rparr>,
               \<lparr>room_id = ''r2'', roomNumber = ''102'', roomType = ''VIP'', room_floor = 1,
                capacity = 1, room_status = Tersedia, assignedPatientId = None,
                room_createdAt = 0, room_updatedAt = 0\<rparr>],
      rooms_isLoaded = True, rooms_isLoading = False, userAddedRooms = []\<rparr>"
        "\<lparr>room_id = ''r1'', roomNumber = ''101'', roomType = ''VIP'', room_floor = 1,
                capacity = 1, room_status = Terisi, assignedPatientId = Some ''p1'',
                room_createdAt = 0, room_updatedAt = 0\<rparr>"]
    deleteRoom_occupied_guard
    [of "\<lparr>rooms = [\<lparr>room_id = ''r1'', roomNumber = ''101'', roomType = ''VIP'', room_floor = 1,
                capacity = 1, room_status = Terisi, assignedPatientId = Some ''p1'',
                room_createdAt = 0, room_updatedAt = 0\<rparr>,
               \<lparr>room_id = ''r2'', roomNumber = ''102'', roomType = ''VIP'', room_floor = 1,
                capacity = 1, room_status = Tersedia, assignedPatientId = None,
                room_createdAt = 0, room_updatedAt = 0\<rparr>],
      rooms_isLoaded = True, rooms_isLoading = False, userAddedRooms = []\<rparr>"
        "\<lparr>room_id = ''r2'', roomNumber = ''102'', roomType = ''VIP'', room_floor = 1,
                capacity = 1, room_status = Tersedia, assignedPatientId = None,
                room_createdAt = 0, room_updatedAt = 0\<rparr>"]
  by simp

section \<open>Patient store: failures of the referral file\<close>

lemma saveFile_failure_stores_nothing:
  "fst (saveFile env ls file) = Inl e \<Longrightarrow> snd (saveFile env ls file) = ls"
  by (auto simp: saveFile_def Let_def split: option.splits setItem_outcome.splits if_splits)

section \<open>Patient store: what an update keeps\<close>

lemma mergePatient_identity: "identity_of (mergePatient now fileId updates p) = identity_of p"
  by (simp add: mergePatient_def identity_of_def)

lemma mergePatient_id: "patient_id (mergePatient now fileId updates p) = patient_id p"
  by (simp add: mergePatient_def)

lemma sortNewestFirst_mset: "mset (sortNewestFirst ps) = mset ps"
  by (simp add: sortNewestFirst_def)

lemma sortNewestFirst_set: "set (sortNewestFirst ps) = set ps"
  by (simp add: sortNewestFirst_def)

lemma lastWithId_mem:
  assumes "lastWithId i ps = Some q"
  shows "q \<in> set ps \<and> patient_id q = i"
proof -
  from assms have ne: "filter (\<lambda>p. patient_id p = i) ps \<noteq> []"
    and q: "q = last (filter (\<lambda>p. patient_id p = i) ps)"
    by (auto simp: lastWithId_def split: list.splits)
  from ne have "last (filter (\<lambda>p. patient_id p = i) ps) \<in> set (filter (\<lambda>p. patient_id p = i) ps)"
    by (rule last_in_set)
  with q show ?thesis by auto
qed

text \<open>
  Claim C4. When saving the attached referral file fails, \<open>addPatient\<close> raises an error
  and so does \<open>updatePatient\<close>; the store (the patient collection and the user-added
  subset with it) is the one before the call, and so is the browser storage.
\<close>

theorem referral_save_failure_aborts:
  "(fst (saveFile (add_save aenv) ls file) = Inl e \<longrightarrow>
      addPatient aenv s ls patientData (Some file) = (Inl (GagalMenyimpanFileRujukan e), s, ls))
   \<and> (fst (saveFile (upd_save uenv) ls file) = Inl e' \<longrightarrow>
      updatePatient uenv s ls i updates (Some file) = (Inl (GagalMenyimpanFileRujukan e'), s, ls))"
proof (intro conjI impI)
  assume a: "fst (saveFile (add_save aenv) ls file) = Inl e"
  then have "saveFile (add_save aenv) ls file = (Inl e, ls)"
    using saveFile_failure_stores_nothing [OF a] by (cases "saveFile (add_save aenv) ls file") simp
  then show "addPatient aenv s ls patientData (Some file) = (Inl (GagalMenyimpanFileRujukan e), s, ls)"
    by (simp add: addPatient_def)
next
  assume a: "fst (saveFile (upd_save uenv) ls file) = Inl e'"
  then have "saveFile (upd_save uenv) ls file = (Inl e', ls)"
    using saveFile_failure_stores_nothing [OF a] by (cases "saveFile (upd_save uenv) ls file") simp
  then show "updatePatient uenv s ls i updates (Some file) = (Inl (GagalMenyimpanFileRujukan e'), s, ls)"
    by (simp add: updatePatient_def)
qed

theorem referral_save_failure_aborts_witness:
  "fst (saveFile sample_save_env []
          \<lparr>file_name = ''rujukan.pdf'', file_type = ''application/pdf'', file_size = 6000000\<rparr>)
     = Inl FileTooLarge
   \<and> addPatient (sample_add_env ''p2'') sample_store [] sample_form
        (Some \<lparr>file_name = ''rujukan.pdf'', file_type = ''application/pdf'', file_size = 6000000\<rparr>)
     = (Inl (GagalMenyimpanFileRujukan FileTooLarge), sample_store, [])
   \<and> updatePatient sample_update_env sample_store [] ''p1'' sample_updates
        (Some \<lparr>file_name = ''rujukan.pdf'', file_type = ''application/pdf'', file_size = 6000000\<rparr>)
     = (Inl (GagalMenyimpanFileRujukan FileTooLarge), sample_store, [])"
  using referral_save_failure_aborts
    [of "sample_add_env ''p2''" "[]"
        "\<lparr>file_name = ''rujukan.pdf'', file_type = ''application/pdf'', file_size = 6000000\<rparr>"
        FileTooLarge sample_store sample_form sample_update_env FileTooLarge "''p1''"
        sample_updates]
  by (simp add: saveFile_def MAX_FILE_SIZE_def sample_add_env_def sample_update_env_def
        sample_save_env_def)

lemma updatePatient_set_identity:
  assumes "updatePatient_set now fileId i updates s = (r, s')"
  shows "mset (map identity_of (patients s')) = mset (map identity_of (patients s))"
    and "\<not> updates_tanggalJamMasuk updates \<Longrightarrow>
            map identity_of (patients s') = map identity_of (patients s)"
    and "r = Some u \<Longrightarrow>
            (\<exists>p \<in> set (patients s). patient_id p = i \<and> identity_of u = identity_of p)
            \<and> u \<in> set (patients s')"
proof -
  let ?m = "mergePatient now fileId updates"
  let ?mapped = "map (\<lambda>patient. if patient_id patient = i then ?m patient else patient) (patients s)"
  have ps': "patients s' = (if updates_tanggalJamMasuk updates then sortNewestFirst ?mapped else ?mapped)"
    and r: "r = map_option ?m (lastWithId i (patients s))"
    using assms by (auto simp: updatePatient_set_def Let_def)
  have ident: "map identity_of ?mapped = map identity_of (patients s)"
    by (induction "patients s") (auto simp: mergePatient_identity)
  have perm: "mset (patients s') = mset ?mapped"
    using ps' by (simp add: sortNewestFirst_mset)
  have "mset (map identity_of (patients s')) = image_mset identity_of (mset (patients s'))"
    by (rule mset_map)
  also have "\<dots> = image_mset identity_of (mset ?mapped)"
    by (simp only: perm)
  also have "\<dots> = mset (map identity_of ?mapped)"
    by (rule mset_map [symmetric])
  also have "\<dots> = mset (map identity_of (patients s))"
    by (simp only: ident)
  finally show "mset (map identity_of (patients s')) = mset (map identity_of (patients s))" .
  show "map identity_of (patients s') = map identity_of (patients s)"
    if "\<not> updates_tanggalJamMasuk updates"
    using that ps' ident by simp
  show "(\<exists>p \<in> set (patients s). patient_id p = i \<and> identity_of u = identity_of p)
            \<and> u \<in> set (patients s')" if "r = Some u"
  proof -
    from that r obtain q where q: "lastWithId i (patients s) = Some q" and u: "u = ?m q"
      by auto
    from lastWithId_mem [OF q] have qm: "q \<in> set (patients s)" "patient_id q = i" by auto
    then have "?m q \<in> set ?mapped" by force
    then have "u \<in> set (patients s')" using ps' u by (simp add: sortNewestFirst_set)
    with qm u show ?thesis
      using mergePatient_identity by blast
  qed
qed

lemma updatePatient_cases:
  assumes "updatePatient env s ls i updates rujukanFile = (r, s', ls')"
  shows "(\<exists>e. r = Inl e \<and> s' = s) \<or>
         (\<exists>fileId u. r = Inr u \<and> updatePatient_set (upd_now env) fileId i updates s = (u, s'))"
  using assms unfolding updatePatient_def
  by (auto split: option.splits prod.splits sum.splits simp: Let_def)

text \<open>
  Claim C2. Whatever the partial payload holds (the keys \<open>id\<close>, \<open>noRM\<close>,
  \<open>nomorRegistrasi\<close> and \<open>registrationDate\<close> included), after \<open>updatePatient\<close> the
  collection carries the same id, medical record number, registration number and
  registration date for every record: record by record when the order is kept, and up to
  the re-sort when the payload sets the admission date. The record the call returns has
  the four values of a stored record with the given id, and is in the collection.
\<close>

theorem updatePatient_keeps_identity:
  assumes "updatePatient env s ls i updates rujukanFile = (r, s', ls')"
  shows "mset (map identity_of (patients s')) = mset (map identity_of (patients s))
       \<and> (\<not> updates_tanggalJamMasuk updates \<longrightarrow>
            map identity_of (patients s') = map identity_of (patients s))
       \<and> (\<forall>u. r = Inr (Some u) \<longrightarrow>
            (\<exists>p \<in> set (patients s). patient_id p = i \<and> identity_of u = identity_of p)
            \<and> u \<in> set (patients s'))"
proof -
  from updatePatient_cases [OF assms] show ?thesis
  proof (elim disjE exE conjE)
    fix e assume "r = Inl e" "s' = s"
    then show ?thesis by simp
  next
    fix fileId u
    assume r: "r = Inr u" and u: "updatePatient_set (upd_now env) fileId i updates s = (u, s')"
    from updatePatient_set_identity [OF u] r show ?thesis by auto
  qed
qed

lemma sample_patient_identity:
  "identity_of sample_patient = (''p1'', ''RM-2026-00001'', ''REG-2026-00001'', 1700)"
  by (simp add: identity_of_def sample_patient_def admission_form.defs patient.defs)

lemma sample_patient_id: "patient_id sample_patient = ''p1''"
  by (simp add: sample_patient_def admission_form.defs patient.defs)

lemma sample_update_identities:
  "map identity_of (patients (fst (snd (updatePatient sample_update_env sample_store [] ''p1''
          sample_updates None))))
   = [(''p1'', ''RM-2026-00001'', ''REG-2026-00001'', 1700)]"
  by (simp add: updatePatient_def updatePatient_set_def Let_def sample_store_def
        sortNewestFirst_def mergePatient_identity sample_patient_identity sample_patient_id)

theorem updatePatient_keeps_identity_witness:
  "map identity_of (patients sample_store) = [(''p1'', ''RM-2026-00001'', ''REG-2026-00001'', 1700)]
   \<and> map identity_of (patients (fst (snd (updatePatient sample_update_env sample_store [] ''p1''
          sample_updates None))))
     = [(''p1'', ''RM-2026-00001'', ''REG-2026-00001'', 1700)]
   \<and> mset (map identity_of (patients (fst (snd (updatePatient sample_update_env sample_store [] ''p1''
          sample_updates None)))))
     = mset (map identity_of (patients sample_store))"
  using updatePatient_keeps_identity
    [of sample_update_env sample_store "[]" "''p1''" sample_updates None
        "fst (updatePatient sample_update_env sample_store [] ''p1'' sample_updates None)"
        "fst (snd (updatePatient sample_update_env sample_store [] ''p1'' sample_updates None))"
        "snd (snd (updatePatient sample_update_env sample_store [] ''p1'' sample_updates None))"]
    sample_update_identities
  by (simp add: sample_store_def sample_patient_identity)

section \<open>Patient store: the user-added subset and the merged collection\<close>

lemma contained_addPatient_set: "contained s \<Longrightarrow> contained (addPatient_set p s)"
  unfolding contained_def addPatient_set_def Let_def
  by (auto simp: sortNewestFirst_set)

lemma addPatient_cases:
  assumes "addPatient env s ls d f = (r, s', ls')"
  shows "s' = s \<or> (\<exists>p. r = Inr p \<and> s' = addPatient_set p s)"
  using assms unfolding addPatient_def
  by (auto simp: Let_def split: option.splits prod.splits sum.splits)

lemma contained_addPatient:
  assumes "contained s" and "addPatient env s ls d f = (r, s', ls')"
  shows "contained s'"
  using addPatient_cases [OF assms(2)] assms(1) contained_addPatient_set by auto

lemma mem_map_if:
  assumes "\<And>p. patient_id (g p) = patient_id p"
  shows "(\<exists>q \<in> set (map (\<lambda>p. if patient_id p = i then g p else p) ps). patient_id q = x)
         = (\<exists>q \<in> set ps. patient_id q = x)"
  by (induction ps) (auto simp: assms)

lemma contained_updatePatient_set:
  assumes "contained s" and "updatePatient_set now f i us s = (u, s')"
  shows "contained s'"
proof -
  let ?m = "mergePatient now f us"
  let ?mapped = "map (\<lambda>p. if patient_id p = i then ?m p else p) (patients s)"
  have "patients s' = (if updates_tanggalJamMasuk us then sortNewestFirst ?mapped else ?mapped)"
    using assms(2) by (auto simp: updatePatient_set_def Let_def)
  then have ps: "set (patients s') = set ?mapped"
    by (simp add: sortNewestFirst_set del: set_map)
  have ua: "userAddedPatients s' =
              map (\<lambda>patient. case u of Some w \<Rightarrow> if patient_id patient = i then w else patient
                              | None \<Rightarrow> patient) (userAddedPatients s)"
    and u: "u = map_option ?m (lastWithId i (patients s))"
    using assms(2) by (auto simp: updatePatient_set_def Let_def)
  have uid: "patient_id w = i" if "u = Some w" for w
    using that u lastWithId_mem by (auto simp: mergePatient_id)
  have keep: "\<exists>q \<in> set (patients s'). patient_id q = x" if "\<exists>q \<in> set (patients s). patient_id q = x" for x
  proof -
    have e: "(\<exists>q \<in> set ?mapped. patient_id q = x) = (\<exists>q \<in> set (patients s). patient_id q = x)"
      by (rule mem_map_if) (rule mergePatient_id)
    show ?thesis unfolding ps by (rule iffD2 [OF e that])
  qed
  show ?thesis
    unfolding contained_def
  proof
    fix a assume "a \<in> set (userAddedPatients s')"
    then obtain b where b: "b \<in> set (userAddedPatients s)"
      and a: "a = (case u of Some w \<Rightarrow> if patient_id b = i then w else b | None \<Rightarrow> b)"
      unfolding ua by auto
    have "patient_id a = patient_id b"
      using a uid by (cases u) auto
    moreover from b assms(1) have "\<exists>q \<in> set (patients s). patient_id q = patient_id b"
      by (simp add: contained_def)
    ultimately show "\<exists>p \<in> set (patients s'). patient_id p = patient_id a"
      using keep [of "patient_id b"] by (simp only:)
  qed
qed

lemma contained_updatePatient:
  assumes "contained s" and "updatePatient env s ls i us f = (r, s', ls')"
  shows "contained s'"
  using updatePatient_cases [OF assms(2)] assms(1) contained_updatePatient_set by blast

lemma deletePatient_cases:
  assumes "deletePatient s ls i = (b, s', ls')"
  shows "s' = s \<or> s' = s\<lparr>patients := filter (\<lambda>p. patient_id p \<noteq> i) (patients s),
             userAddedPatients := filter (\<lambda>p. patient_id p \<noteq> i) (userAddedPatients s)\<rparr>"
  using assms unfolding deletePatient_def by (auto split: option.splits)

lemma contained_deletePatient:
  assumes "contained s" and "deletePatient s ls i = (b, s', ls')"
  shows "contained s'"
  using deletePatient_cases [OF assms(2)]
proof
  assume "s' = s" with assms(1) show ?thesis by simp
next
  assume "s' = s\<lparr>patients := filter (\<lambda>p. patient_id p \<noteq> i) (patients s),
             userAddedPatients := filter (\<lambda>p. patient_id p \<noteq> i) (userAddedPatients s)\<rparr>"
  then have ps: "patients s' = filter (\<lambda>p. patient_id p \<noteq> i) (patients s)"
    and ua: "userAddedPatients s' = filter (\<lambda>p. patient_id p \<noteq> i) (userAddedPatients s)"
    by simp_all
  show ?thesis
    unfolding contained_def
  proof
    fix u assume "u \<in> set (userAddedPatients s')"
    then have u: "u \<in> set (userAddedPatients s)" and ne: "patient_id u \<noteq> i"
      unfolding ua by simp_all
    from u assms(1) obtain p where "p \<in> set (patients s)" "patient_id p = patient_id u"
      unfolding contained_def by blast
    with ne have "p \<in> set (patients s')" unfolding ps by simp
    with \<open>patient_id p = patient_id u\<close>
    show "\<exists>p \<in> set (patients s'). patient_id p = patient_id u" by blast
  qed
qed

lemma contained_dischargePatient:
  assumes "contained s" and "dischargePatient now s i t = (r, s')"
  shows "contained s'"
proof -
  let ?d = "\<lambda>patient. patient\<lparr>status := Keluar, tanggalKeluar := Some t, updatedAt := now\<rparr>"
  have ps: "patients s' = map (\<lambda>p. if patient_id p = i then ?d p else p) (patients s)"
    and ua: "userAddedPatients s' = userAddedPatients s"
    using assms(2) by (auto simp: dischargePatient_def Let_def)
  have "(\<exists>q \<in> set (patients s'). patient_id q = x) = (\<exists>q \<in> set (patients s). patient_id q = x)" for x
    unfolding ps by (rule mem_map_if) simp
  with assms(1) show ?thesis unfolding contained_def ua by simp
qed

lemma contained_loadMockData_begin:
  assumes "contained s" and "loadMockData_begin s = Some s'"
  shows "contained s'"
proof -
  from assms(2) have "s' = s\<lparr>isLoading := True\<rparr>"
    by (auto simp: loadMockData_begin_def split: if_splits)
  with assms(1) show ?thesis by (simp add: contained_def)
qed

lemma contained_loadMockData_complete: "contained (loadMockData_complete fetched s)"
  unfolding contained_def loadMockData_complete_def
  by (cases fetched) (auto simp: sortNewestFirst_set)

lemma contained_ids:
  assumes "contained s"
  shows "set (map patient_id (userAddedPatients s)) \<subseteq> set (map patient_id (patients s))"
proof
  fix x assume "x \<in> set (map patient_id (userAddedPatients s))"
  then obtain u where u: "u \<in> set (userAddedPatients s)" and x: "x = patient_id u" by auto
  from assms u obtain p where p: "p \<in> set (patients s)" and e: "patient_id p = patient_id u"
    unfolding contained_def by blast
  from p have "patient_id p \<in> patient_id ` set (patients s)" by (rule imageI)
  then show "x \<in> set (map patient_id (patients s))" by (simp only: x e set_map)
qed

lemma contained_step:
  assumes "step s s'" and "contained s"
  shows "contained s'"
  using assms
proof (induction rule: step.induct)
  case (load_begin s s')
  then show ?case using contained_loadMockData_begin by blast
next
  case (load_complete s fetched)
  show ?case by (rule contained_loadMockData_complete)
next
  case (add env s ls patientData rujukanFile r s' ls')
  then show ?case using contained_addPatient by blast
next
  case (update uenv s ls i updates rujukanFile ur s' ls')
  then show ?case using contained_updatePatient by blast
next
  case (delete s ls i b s' ls')
  then show ?case using contained_deletePatient by blast
next
  case (discharge now s i t dr s')
  then show ?case using contained_dischargePatient by blast
qed

lemma contained_steps:
  assumes "rtranclp step s s'" and "contained s"
  shows "contained s'"
  using assms by (induction rule: rtranclp_induct) (auto intro: contained_step)

lemma sample_patient_tanggalJamMasuk: "tanggalJamMasuk sample_patient = 1000"
  by (simp add: sample_patient_def sample_form_def admission_form.defs patient.defs)

lemma add_after_rehydration:
  "map patient_id (patients
     (fst (snd (addPatient (sample_add_env ''p2'') (rehydrated [sample_patient]) [] sample_form
                  None)))) = [''p2'']"
  "map patient_id (userAddedPatients
     (fst (snd (addPatient (sample_add_env ''p2'') (rehydrated [sample_patient]) [] sample_form
                  None)))) = [''p1'', ''p2'']"
  by (simp_all add: addPatient_def addPatient_set_def newPatient_of_def Let_def rehydrated_def
        initial_store_def sortNewestFirst_def sample_patient_id sample_add_env_def
        admission_form.defs patient.defs)

lemma add_after_load:
  "map patient_id (patients
     (fst (snd (addPatient (sample_add_env ''p2'')
                  (loadMockData_complete None (rehydrated [sample_patient])) [] sample_form
                  None)))) = [''p1'', ''p2'']"
  "map patient_id (userAddedPatients
     (fst (snd (addPatient (sample_add_env ''p2'')
                  (loadMockData_complete None (rehydrated [sample_patient])) [] sample_form
                  None)))) = [''p1'', ''p2'']"
  by (simp_all add: addPatient_def addPatient_set_def newPatient_of_def Let_def rehydrated_def
        initial_store_def loadMockData_complete_def sortNewestFirst_def
        sample_patient_tanggalJamMasuk sample_form_def sample_patient_id sample_add_env_def
        admission_form.defs patient.defs)

text \<open>
  Claim C10 fails as stated. A session that starts with one saved record, \<open>p1\<close>, has it in
  \<open>userAddedPatients\<close> and not in \<open>patients\<close>; \<open>addPatient\<close> before any load then
  gives \<open>patients\<close> the new record \<open>p2\<close> alone, while \<open>userAddedPatients\<close> holds both.
\<close>

theorem userAdded_contained_counterexample:
  "reachable (fst (snd (addPatient (sample_add_env ''p2'') (rehydrated [sample_patient]) []
                          sample_form None)))
   \<and> map patient_id (patients
         (fst (snd (addPatient (sample_add_env ''p2'') (rehydrated [sample_patient]) []
                      sample_form None)))) = [''p2'']
   \<and> map patient_id (userAddedPatients
         (fst (snd (addPatient (sample_add_env ''p2'') (rehydrated [sample_patient]) []
                      sample_form None)))) = [''p1'', ''p2'']
   \<and> \<not> contained (fst (snd (addPatient (sample_add_env ''p2'') (rehydrated [sample_patient]) []
                                sample_form None)))"
proof -
  let ?X = "fst (snd (addPatient (sample_add_env ''p2'') (rehydrated [sample_patient]) []
                        sample_form None))"
  have "step (rehydrated [sample_patient]) ?X"
    using step.add
      [of "sample_add_env ''p2''" "rehydrated [sample_patient]" "[]" sample_form None
          "fst (addPatient (sample_add_env ''p2'') (rehydrated [sample_patient]) [] sample_form None)"
          ?X
          "snd (snd (addPatient (sample_add_env ''p2'') (rehydrated [sample_patient]) []
                       sample_form None))"]
    by simp
  then have "rtranclp step (rehydrated [sample_patient]) ?X" by (rule r_into_rtranclp)
  then have r: "reachable ?X" unfolding reachable_def by blast
  have "\<not> contained ?X"
  proof
    assume "contained ?X"
    then have "set (map patient_id (userAddedPatients ?X)) \<subseteq> set (map patient_id (patients ?X))"
      by (rule contained_ids)
    then show False unfolding add_after_rehydration by simp
  qed
  with r add_after_rehydration show ?thesis by (intro conjI)
qed

text \<open>
  Claim C10, as amended. In every state that \<open>loadMockData\<close>, \<open>addPatient\<close>,
  \<open>updatePatient\<close>, \<open>deletePatient\<close> and \<open>dischargePatient\<close> reach from the start of a
  session without saved records, and in every state they reach from a completed
  \<open>loadMockData\<close>, whatever the state before it, every record of \<open>userAddedPatients\<close> has a
  record with the same id in \<open>patients\<close>.
\<close>

theorem userAdded_contained_in_patients:
  "(rtranclp step (rehydrated []) s \<longrightarrow>
      (\<forall>u \<in> set (userAddedPatients s). \<exists>p \<in> set (patients s). patient_id p = patient_id u))
   \<and> (rtranclp step (loadMockData_complete fetched s0) s' \<longrightarrow>
      (\<forall>u \<in> set (userAddedPatients s'). \<exists>p \<in> set (patients s'). patient_id p = patient_id u))"
proof (intro conjI impI)
  assume "rtranclp step (rehydrated []) s"
  moreover have "contained (rehydrated [])"
    by (simp add: contained_def rehydrated_def initial_store_def)
  ultimately have "contained s" by (rule contained_steps)
  then show "\<forall>u \<in> set (userAddedPatients s). \<exists>p \<in> set (patients s). patient_id p = patient_id u"
    by (simp add: contained_def)
next
  assume "rtranclp step (loadMockData_complete fetched s0) s'"
  then have "contained s'"
    using contained_loadMockData_complete by (rule contained_steps)
  then show "\<forall>u \<in> set (userAddedPatients s'). \<exists>p \<in> set (patients s'). patient_id p = patient_id u"
    by (simp add: contained_def)
qed

theorem userAdded_contained_in_patients_witness:
  "rtranclp step (loadMockData_complete None (rehydrated [sample_patient]))
     (fst (snd (addPatient (sample_add_env ''p2'')
                  (loadMockData_complete None (rehydrated [sample_patient])) [] sample_form None)))
   \<and> map patient_id (userAddedPatients
         (fst (snd (addPatient (sample_add_env ''p2'')
                      (loadMockData_complete None (rehydrated [sample_patient])) [] sample_form
                      None)))) = [''p1'', ''p2'']
   \<and> map patient_id (patients
         (fst (snd (addPatient (sample_add_env ''p2'')
                      (loadMockData_complete None (rehydrated [sample_patient])) [] sample_form
                      None)))) = [''p1'', ''p2'']"
proof -
  let ?L = "loadMockData_complete None (rehydrated [sample_patient])"
  let ?X = "fst (snd (addPatient (sample_add_env ''p2'') ?L [] sample_form None))"
  have "step ?L ?X"
    using step.add
      [of "sample_add_env ''p2''" ?L "[]" sample_form None
          "fst (addPatient (sample_add_env ''p2'') ?L [] sample_form None)" ?X
          "snd (snd (addPatient (sample_add_env ''p2'') ?L [] sample_form None))"]
    by simp
  then have r: "rtranclp step ?L ?X" by (rule r_into_rtranclp)
  from userAdded_contained_in_patients [of ?X None "rehydrated [sample_patient]" ?X] r
  have "\<forall>u \<in> set (userAddedPatients ?X). \<exists>p \<in> set (patients ?X). patient_id p = patient_id u"
    by blast
  with r add_after_load show ?thesis by (intro conjI)
qed

section \<open>Referral files: type and size\<close>

lemma js_String_1700: "js_String 1700 = ''1700''"
  by (simp add: js_String_def string_of_nat.simps digit_char_def)

text \<open>
  The upload handler of the admission form keeps a file exactly when its type is JPEG,
  PNG, GIF or PDF and its size is at most 5MB.
\<close>

lemma handleFileUpload_keeps:
  "uploadedFile (handleFileUpload url (st\<lparr>uploadedFile := None\<rparr>) (Some file)) = Some file
   \<longleftrightarrow> file_type file \<in> {''image/jpeg'', ''image/jpg'', ''image/png'', ''image/gif'',
                          ''application/pdf''}
       \<and> file_size file \<le> 5 * 1024 * 1024"
  by (auto simp: handleFileUpload_def Let_def)

text \<open>
  Claim C9, as amended. \<open>validateRujukanFile\<close> accepts every file of type PDF, JPEG
  (\<open>image/jpeg\<close> or \<open>image/jpg\<close>) or PNG of at most \<open>5 * 1024 * 1024\<close> bytes, and rejects
  with an error every larger file and every file whose type is none of PDF, JPEG, PNG and
  GIF. \<open>saveFile\<close> checks the size alone: a larger file is rejected with an error;
  whenever \<open>saveFile\<close> fails, nothing is stored; a file within the limit is stored
  whatever its type, when the read and the write succeed.
\<close>

theorem referral_file_limits:
  "(file_type file \<in> {''application/pdf'', ''image/jpeg'', ''image/jpg'', ''image/png''}
      \<and> file_size file \<le> 5 * 1024 * 1024
      \<longrightarrow> validateRujukanFile file = \<lparr>valid = True, error_text = None\<rparr>)
   \<and> (file_size file > 5 * 1024 * 1024
        \<or> file_type file \<notin> {''application/pdf'', ''image/jpeg'', ''image/jpg'', ''image/png'',
                               ''image/gif''}
      \<longrightarrow> \<not> valid (validateRujukanFile file) \<and> error_text (validateRujukanFile file) \<noteq> None)
   \<and> (file_size file > 5 * 1024 * 1024 \<longrightarrow> saveFile env ls file = (Inl FileTooLarge, ls))
   \<and> (\<forall>e. fst (saveFile env ls file) = Inl e \<longrightarrow> snd (saveFile env ls file) = ls)
   \<and> (file_size file \<le> 5 * 1024 * 1024 \<and> reader_result env \<noteq> None \<and> setItem_result env = Stored
      \<longrightarrow> (\<exists>storedFile. saveFile env ls file =
             (Inr storedFile, AList.update (STORAGE_KEY_PREFIX @ sf_id storedFile) storedFile ls)
             \<and> sf_type storedFile = file_type file))"
proof (intro conjI impI allI)
  assume "file_type file \<in> {''application/pdf'', ''image/jpeg'', ''image/jpg'', ''image/png''}
      \<and> file_size file \<le> 5 * 1024 * 1024"
  then show "validateRujukanFile file = \<lparr>valid = True, error_text = None\<rparr>"
    by (auto simp: validateRujukanFile_def MAX_FILE_SIZE_def)
next
  assume a: "file_size file > 5 * 1024 * 1024
        \<or> file_type file \<notin> {''application/pdf'', ''image/jpeg'', ''image/jpg'', ''image/png'',
                               ''image/gif''}"
  then show "\<not> valid (validateRujukanFile file)"
    by (auto simp: validateRujukanFile_def MAX_FILE_SIZE_def)
  from a show "error_text (validateRujukanFile file) \<noteq> None"
    by (auto simp: validateRujukanFile_def MAX_FILE_SIZE_def)
next
  assume "file_size file > 5 * 1024 * 1024"
  then show "saveFile env ls file = (Inl FileTooLarge, ls)"
    by (simp add: saveFile_def MAX_FILE_SIZE_def)
next
  fix e assume "fst (saveFile env ls file) = Inl e"
  then show "snd (saveFile env ls file) = ls" by (rule saveFile_failure_stores_nothing)
next
  assume "file_size file \<le> 5 * 1024 * 1024 \<and> reader_result env \<noteq> None \<and> setItem_result env = Stored"
  then show "\<exists>storedFile. saveFile env ls file =
             (Inr storedFile, AList.update (STORAGE_KEY_PREFIX @ sf_id storedFile) storedFile ls)
             \<and> sf_type storedFile = file_type file"
    by (auto simp: saveFile_def MAX_FILE_SIZE_def Let_def)
qed

theorem referral_file_limits_witness:
  "validateRujukanFile \<lparr>file_name = ''rujukan.pdf'', file_type = ''application/pdf'', file_size = 1000\<rparr>
     = \<lparr>valid = True, error_text = None\<rparr>
   \<and> valid (validateRujukanFile
        \<lparr>file_name = ''rujukan.pdf'', file_type = ''application/pdf'', file_size = 6000000\<rparr>) = False
   \<and> valid (validateRujukanFile
        \<lparr>file_name = ''catatan.txt'', file_type = ''text/plain'', file_size = 1000\<rparr>) = False
   \<and> saveFile sample_save_env []
        \<lparr>file_name = ''rujukan.pdf'', file_type = ''application/pdf'', file_size = 6000000\<rparr>
     = (Inl FileTooLarge, [])
   \<and> fst (saveFile sample_save_env []
        \<lparr>file_name = ''rujukan.pdf'', file_type = ''application/pdf'', file_size = 1000\<rparr>)
     = Inr \<lparr>sf_id = ''file_1700_k3j9x2a1b'', sf_name = ''rujukan.pdf'',
            sf_type = ''application/pdf'', sf_size = 1000,
            sf_data = ''data:text/plain;base64,aGVsbG8='', sf_uploadedAt = 1700\<rparr>"
  using referral_file_limits
      [of "\<lparr>file_name = ''rujukan.pdf'', file_type = ''application/pdf'', file_size = 1000\<rparr>"
          sample_save_env "[]"]
    referral_file_limits
      [of "\<lparr>file_name = ''rujukan.pdf'', file_type = ''application/pdf'', file_size = 6000000\<rparr>"
          sample_save_env "[]"]
    referral_file_limits
      [of "\<lparr>file_name = ''catatan.txt'', file_type = ''text/plain'', file_size = 1000\<rparr>"
          sample_save_env "[]"]
  by (simp add: saveFile_def MAX_FILE_SIZE_def sample_save_env_def js_String_1700 Let_def)

text \<open>
  The claim as stated fails on both functions: \<open>validateRujukanFile\<close> rejects a GIF
  image of 1000 bytes, and \<open>saveFile\<close> stores a plain-text file.
\<close>

theorem referral_file_claim_counterexample:
  "valid (validateRujukanFile
      \<lparr>file_name = ''rujukan.gif'', file_type = ''image/gif'', file_size = 1000\<rparr>) = False
   \<and> saveFile sample_save_env []
        \<lparr>file_name = ''catatan.txt'', file_type = ''text/plain'', file_size = 1000\<rparr>
     = (Inr \<lparr>sf_id = ''file_1700_k3j9x2a1b'', sf_name = ''catatan.txt'',
             sf_type = ''text/plain'', sf_size = 1000,
             sf_data = ''data:text/plain;base64,aGVsbG8='', sf_uploadedAt = 1700\<rparr>,
        [(''simrs_file_file_1700_k3j9x2a1b'',
          \<lparr>sf_id = ''file_1700_k3j9x2a1b'', sf_name = ''catatan.txt'',
             sf_type = ''text/plain'', sf_size = 1000,
             sf_data = ''data:text/plain;base64,aGVsbG8='', sf_uploadedAt = 1700\<rparr>)])"
  by (simp add: validateRujukanFile_def saveFile_def MAX_FILE_SIZE_def
        sample_save_env_def js_String_1700 Let_def STORAGE_KEY_PREFIX_def)

section \<open>Patient store: filtering\<close>














lemma zone_ok_fixed: "zone_ok (fixed_zone tz)"
  by (simp add: zone_ok_def dayStart_def dayEnd_def UTC_def fixed_zone_def DAY_def)




section \<open>Patient store: bed occupancy\<close>

lemma counter_get_update:
  "counter_get (AList.update k v m) k' = (if k' = k then v else counter_get m k')"
  by (simp add: counter_get_def update_conv')

lemma fold_count:
  "counter_get (fold (\<lambda>x m. AList.update (f x) (counter_get m (f x) + 1) m) xs m0) k
   = counter_get m0 k + length (filter (\<lambda>x. f x = k) xs)"
proof (induction xs arbitrary: m0)
  case Nil
  show ?case by simp
next
  case (Cons x xs)
  have "counter_get (fold (\<lambda>x m. AList.update (f x) (counter_get m (f x) + 1) m) (x # xs) m0) k
        = counter_get (AList.update (f x) (counter_get m0 (f x) + 1) m0) k
          + length (filter (\<lambda>x. f x = k) xs)"
    by (simp only: fold_simps Cons.IH)
  also have "\<dots> = counter_get m0 k + length (filter (\<lambda>x. f x = k) (x # xs))"
    by (simp add: counter_get_update)
  finally show ?case .
qed


lemma occupiedByClass_count:
  "counter_get (occupiedByClass ps) k
   = length (filter (\<lambda>p. status p = Aktif \<and> kelasPerawatan_str (kelasPerawatan p) = k) ps)"
proof -
  have "counter_get (occupiedByClass ps) k
        = counter_get [] k + length (filter (\<lambda>p. kelasPerawatan_str (kelasPerawatan p) = k)
                    (filter (\<lambda>p. status p = Aktif) ps))"
    unfolding occupiedByClass_def Let_def by (rule fold_count)
  also have "\<dots> = length (filter (\<lambda>p. status p = Aktif \<and> kelasPerawatan_str (kelasPerawatan p) = k) ps)"
    by (simp add: counter_get_def)
  finally show ?thesis .
qed

lemma estimatedTotal_pos: "estimatedTotal n > 0"
  by (auto simp: estimatedTotal_def max_def)

text \<open>
  Claim C7. For each of the six care classes, in order, \<open>getBedOccupancyByClass\<close> reports
  as occupied the number of patients of that class with status \<open>Aktif\<close>, as total
  \<open>max(occupied, ceil(occupied * 1.5))\<close> when that number is positive and 10 when it is
  zero, and as percentage \<open>round(occupied / total * 100)\<close>.
\<close>

theorem bedOccupancy_estimate:
  "getBedOccupancyByClass s =
     map (\<lambda>kelas. \<lparr>occ_kelas = kelas,
                   occ_total = estimatedTotal (occupiedIn (patients s) kelas),
                   occ_occupied = occupiedIn (patients s) kelas,
                   occ_percentage =
                     round (real (occupiedIn (patients s) kelas)
                            / real_of_int (estimatedTotal (occupiedIn (patients s) kelas)) * 100)\<rparr>)
       [''VVIP'', ''VIP'', ''Kelas 1'', ''Kelas 2'', ''Kelas 3'', ''ICU'']"
proof -
  have t: "(if max (int n) \<lceil>real n * 1.5\<rceil> = 0 then 10 else max (int n) \<lceil>real n * 1.5\<rceil>)
           = estimatedTotal n" for n
    by (cases "n = 0") (auto simp: estimatedTotal_def max_def)
  show ?thesis
    unfolding getBedOccupancyByClass_def Let_def occupiedByClass_count t careClasses_def
    by (simp add: estimatedTotal_pos occupiedIn_def)
qed



text \<open>The estimate and the percentage in integer arithmetic.\<close>

lemma ceiling_three_halves: "\<lceil>real n * 1.5\<rceil> = (3 * int n + 1) div 2"
proof -
  have "real n * 1.5 = real_of_int (3 * int n) / real_of_int 2" by simp
  then have "\<lceil>real n * 1.5\<rceil> = - ((- (3 * int n)) div 2)"
    by (simp only: ceiling_divide_eq_div)
  then show ?thesis by linarith
qed

lemma estimatedTotal_int:
  "estimatedTotal n = (if n = 0 then 10 else (3 * int n + 1) div 2)"
  unfolding estimatedTotal_def ceiling_three_halves by auto

lemma round_percentage:
  assumes "0 < t"
  shows "round (real n / real_of_int t * 100) = (200 * int n + t) div (2 * t)"
proof -
  have "real n / real_of_int t * 100 + 1 / 2 = real_of_int (200 * int n + t) / real_of_int (2 * t)"
    using assms by (simp add: field_simps)
  then have "round (real n / real_of_int t * 100) = \<lfloor>real_of_int (200 * int n + t) / real_of_int (2 * t)\<rfloor>"
    by (simp only: round_def)
  also have "\<dots> = (200 * int n + t) div (2 * t)"
    by (rule floor_divide_of_int_eq)
  finally show ?thesis .
qed


section \<open>Admission schema: the entitlement of national insurance\<close>

lemma check_paths:
  "i \<in> set (check_min n key msg v) \<Longrightarrow> issue_path i = [key]"
  "i \<in> set (check_max n key msg v) \<Longrightarrow> issue_path i = [key]"
  "i \<in> set (check_digits lo hi key msg v) \<Longrightarrow> issue_path i = [key]"
  "i \<in> set (check_optional (check_max n key msg) w) \<Longrightarrow> issue_path i = [key]"
  by (auto simp: check_min_def check_max_def check_digits_def check_optional_def
           split: if_splits option.splits)

lemma fieldIssues_no_kelasHakRawat:
  "i \<in> set (fieldIssues loaded data) \<Longrightarrow> issue_path i \<noteq> [''kelasHakRawat'']"
  unfolding fieldIssues_def
  by (auto dest!: check_paths split: if_splits)

lemma issue_paths:
  "issue_path rujukan_issue = [''asalRujukan'']"
  "issue_path nomorKartuPolis_issue = [''nomorKartuPolis'']"
  "issue_path kelasHakRawat_issue = [''kelasHakRawat'']"
  by (simp_all add: rujukan_issue_def nomorKartuPolis_issue_def kelasHakRawat_issue_def)

lemma refinementIssues_kelasHakRawat:
  assumes "i \<in> set (refinementIssues data)" and "issue_path i = [''kelasHakRawat'']"
  shows "\<not> refine_kelasHakRawat data \<and> i = kelasHakRawat_issue"
proof -
  from assms(1) consider "i = rujukan_issue" | "i = nomorKartuPolis_issue"
    | "i = kelasHakRawat_issue" "\<not> refine_kelasHakRawat data"
    unfolding refinementIssues_def by (auto split: if_splits)
  then show ?thesis
  proof cases
    case 1 with assms(2) show ?thesis by (simp add: issue_paths)
  next
    case 2 with assms(2) show ?thesis by (simp add: issue_paths)
  next
    case 3 then show ?thesis by simp
  qed
qed

text \<open>
  Claim C8. A payload that passes all the rules of the fields, pays by
  \<open>BPJS Kesehatan\<close> and has no \<open>kelasHakRawat\<close> fails validation, and among the issues
  there is one on the field path \<open>kelasHakRawat\<close>: the issue of this rule, with its
  message, and no other issue is on that path. A payload that pays by \<open>BPJS Kesehatan\<close>
  and has a \<open>kelasHakRawat\<close> passes this rule: no issue is raised on the path
  \<open>kelasHakRawat\<close>.
\<close>

theorem bpjs_requires_kelasHakRawat:
  "(fieldIssues loaded data = [] \<and> caraBayar data = BPJS_Kesehatan \<and> kelasHakRawat data = None
      \<longrightarrow> (\<exists>issues. admissionSchema_safeParse loaded data = Inl issues
             \<and> (\<exists>i \<in> set issues. issue_path i = [''kelasHakRawat''])
             \<and> (\<forall>i \<in> set issues. issue_path i = [''kelasHakRawat''] \<longrightarrow>
                   issue_message i = ''Kelas hak rawat belum dipilih. Untuk BPJS Kesehatan, silakan pilih kelas hak rawat pasien.'')))
   \<and> (caraBayar data = BPJS_Kesehatan \<and> kelasHakRawat data \<noteq> None
      \<longrightarrow> refine_kelasHakRawat data
          \<and> (\<forall>i \<in> set (admissionSchema_issues loaded data). issue_path i \<noteq> [''kelasHakRawat'']))"
proof (intro conjI impI)
  assume a: "fieldIssues loaded data = [] \<and> caraBayar data = BPJS_Kesehatan \<and> kelasHakRawat data = None"
  then have nr: "\<not> refine_kelasHakRawat data" by (simp add: refine_kelasHakRawat_def)
  then have m: "kelasHakRawat_issue \<in> set (refinementIssues data)"
    by (simp add: refinementIssues_def)
  from a have e: "admissionSchema_issues loaded data = refinementIssues data"
    by (simp add: admissionSchema_issues_def)
  from m e have ne: "admissionSchema_issues loaded data \<noteq> []" by auto
  then have "admissionSchema_safeParse loaded data = Inl (admissionSchema_issues loaded data)"
    by (cases "admissionSchema_issues loaded data") (simp_all add: admissionSchema_safeParse_def)
  moreover have "\<exists>i \<in> set (admissionSchema_issues loaded data). issue_path i = [''kelasHakRawat'']"
    using m e issue_paths(3) by auto
  moreover have "\<forall>i \<in> set (admissionSchema_issues loaded data).
                    issue_path i = [''kelasHakRawat''] \<longrightarrow>
                    issue_message i = ''Kelas hak rawat belum dipilih. Untuk BPJS Kesehatan, silakan pilih kelas hak rawat pasien.''"
  proof (intro ballI impI)
    fix i assume "i \<in> set (admissionSchema_issues loaded data)"
      and "issue_path i = [''kelasHakRawat'']"
    then have "i = kelasHakRawat_issue"
      unfolding e using refinementIssues_kelasHakRawat by blast
    then show "issue_message i = ''Kelas hak rawat belum dipilih. Untuk BPJS Kesehatan, silakan pilih kelas hak rawat pasien.''"
      by (simp add: kelasHakRawat_issue_def)
  qed
  ultimately
  show "\<exists>issues. admissionSchema_safeParse loaded data = Inl issues
             \<and> (\<exists>i \<in> set issues. issue_path i = [''kelasHakRawat''])
             \<and> (\<forall>i \<in> set issues. issue_path i = [''kelasHakRawat''] \<longrightarrow>
                   issue_message i = ''Kelas hak rawat belum dipilih. Untuk BPJS Kesehatan, silakan pilih kelas hak rawat pasien.'')"
    by blast
next
  assume a: "caraBayar data = BPJS_Kesehatan \<and> kelasHakRawat data \<noteq> None"
  then show r: "refine_kelasHakRawat data" by (simp add: refine_kelasHakRawat_def)
  show "\<forall>i \<in> set (admissionSchema_issues loaded data). issue_path i \<noteq> [''kelasHakRawat'']"
  proof
    fix i assume "i \<in> set (admissionSchema_issues loaded data)"
    then consider "i \<in> set (fieldIssues loaded data)" | "i \<in> set (refinementIssues data)"
      by (auto simp: admissionSchema_issues_def)
    then show "issue_path i \<noteq> [''kelasHakRawat'']"
    proof cases
      case 1 then show ?thesis by (rule fieldIssues_no_kelasHakRawat)
    next
      case 2 with r refinementIssues_kelasHakRawat show ?thesis by blast
    qed
  qed
qed

lemma sample_fieldIssues: "fieldIssues 2000 sample_form = []"
  by (simp add: fieldIssues_def sample_form_def check_min_def check_max_def check_digits_def
        check_optional_def is_digit_def)

lemma sample_refinementIssues: "refinementIssues sample_form = [kelasHakRawat_issue]"
  by (simp add: refinementIssues_def sample_form_def refine_rujukan_def refine_nomorKartuPolis_def
        refine_kelasHakRawat_def)

lemma sample_refinementIssues': "refinementIssues (sample_form\<lparr>kelasHakRawat := Some Hak_Kelas_1\<rparr>) = []"
  by (simp add: refinementIssues_def sample_form_def refine_rujukan_def refine_nomorKartuPolis_def
        refine_kelasHakRawat_def)

lemma sample_fieldIssues': "fieldIssues 2000 (sample_form\<lparr>kelasHakRawat := Some Hak_Kelas_1\<rparr>) = []"
  by (simp add: fieldIssues_def sample_form_def check_min_def check_max_def check_digits_def
        check_optional_def is_digit_def)

theorem bpjs_requires_kelasHakRawat_witness:
  "fieldIssues 2000 sample_form = []
   \<and> caraBayar sample_form = BPJS_Kesehatan \<and> kelasHakRawat sample_form = None
   \<and> admissionSchema_safeParse 2000 sample_form
       = Inl [\<lparr>issue_path = [''kelasHakRawat''], issue_message =
                 ''Kelas hak rawat belum dipilih. Untuk BPJS Kesehatan, silakan pilih kelas hak rawat pasien.''\<rparr>]
   \<and> admissionSchema_safeParse 2000 (sample_form\<lparr>kelasHakRawat := Some Hak_Kelas_1\<rparr>)
       = Inr (sample_form\<lparr>kelasHakRawat := Some Hak_Kelas_1\<rparr>)
   \<and> refine_kelasHakRawat (sample_form\<lparr>kelasHakRawat := Some Hak_Kelas_1\<rparr>)"
proof -
  have h0: "caraBayar sample_form = BPJS_Kesehatan \<and> kelasHakRawat sample_form = None"
    by (simp add: sample_form_def)
  have a: "admissionSchema_safeParse 2000 sample_form
       = Inl [\<lparr>issue_path = [''kelasHakRawat''], issue_message =
                 ''Kelas hak rawat belum dipilih. Untuk BPJS Kesehatan, silakan pilih kelas hak rawat pasien.''\<rparr>]"
    by (simp add: admissionSchema_safeParse_def admissionSchema_issues_def sample_fieldIssues
          sample_refinementIssues kelasHakRawat_issue_def)
  have b: "admissionSchema_safeParse 2000 (sample_form\<lparr>kelasHakRawat := Some Hak_Kelas_1\<rparr>)
       = Inr (sample_form\<lparr>kelasHakRawat := Some Hak_Kelas_1\<rparr>)"
    by (simp add: admissionSchema_safeParse_def admissionSchema_issues_def sample_fieldIssues'
          sample_refinementIssues')
  have h: "caraBayar (sample_form\<lparr>kelasHakRawat := Some Hak_Kelas_1\<rparr>) = BPJS_Kesehatan
           \<and> kelasHakRawat (sample_form\<lparr>kelasHakRawat := Some Hak_Kelas_1\<rparr>) \<noteq> None"
    by (simp add: sample_form_def)
  have c: "refine_kelasHakRawat (sample_form\<lparr>kelasHakRawat := Some Hak_Kelas_1\<rparr>)"
    using bpjs_requires_kelasHakRawat [of 2000 "sample_form\<lparr>kelasHakRawat := Some Hak_Kelas_1\<rparr>"] h
    by blast
  from sample_fieldIssues h0 a b c show ?thesis by (intro conjI) simp_all
qed

section \<open>Patient store: admission trend\<close>

lemma countAdmission_keys: "map fst (countAdmission p m) = map fst m"
proof (cases "map_of m (isoDate (tanggalJamMasuk p))")
  case None
  then show ?thesis by (simp add: countAdmission_def)
next
  case (Some e)
  then have "isoDate (tanggalJamMasuk p) \<in> set (map fst m)"
    by (metis map_of_eq_None_iff option.distinct(1) set_map)
  with Some show ?thesis by (simp add: countAdmission_def Let_def update_keys)
qed

lemma fold_countAdmission_keys: "map fst (fold countAdmission ps m) = map fst m"
  by (induction ps arbitrary: m) (simp_all add: countAdmission_keys)

lemma london_startDate:
  "startOfDay london_zone (addDays london_zone (- int 7) 1775044800000) = 1774396800000"
  by (simp add: startOfDay_def addDays_def UTC_def LocalTime_def london_zone_def DAY_def)

lemma london_dates:
  "map (\<lambda>i. isoDate (addDays london_zone (int i) 1774396800000)) [0, 1, 2, 3, 4, 5, 6]
   = [20537, 20538, 20539, 20540, 20541, 20541, 20542]"
  by (simp add: isoDate_def addDays_def UTC_def LocalTime_def london_zone_def DAY_def)

lemma upt_7: "[0..<7] = [0, 1, 2, 3, 4, 5, 6]"
  by (simp add: upt_rec)

lemma london_dateMap:
  "fold (\<lambda>i m. AList.update (isoDate (addDays london_zone (int i) 1774396800000)) c m) [0..<7] []
   = [(20537, c), (20538, c), (20539, c), (20540, c), (20541, c), (20542, c)]"
  unfolding upt_7
  by (simp add: isoDate_def addDays_def UTC_def LocalTime_def london_zone_def DAY_def)

text \<open>
  Claim C6 on the code. \<open>getAdmissionTrend\<close> makes one entry for each of the \<open>days\<close>
  local midnights from the start of the range, under the UTC date of that midnight. In
  London on 1 April 2026 at 12:00 UTC the range starts on 25 March; the midnight of
  29 March is at 00:00 UTC and the midnight of 30 March, in summer time, at 23:00 UTC of
  29 March: both have the UTC date of 29 March, the second \<open>set\<close> overwrites the first,
  and \<open>getAdmissionTrend(7)\<close> returns six entries, whatever the patients.
\<close>

theorem getAdmissionTrend_london_six_entries:
  "map trend_date (getAdmissionTrend london_zone 1775044800000 s 7)
     = [20537, 20538, 20539, 20540, 20541, 20542]
   \<and> length (getAdmissionTrend london_zone 1775044800000 s 7) = 6"
proof -
  let ?c = "\<lparr>cell_count = 0, cell_byCaraMasuk = []\<rparr>"
  let ?recent = "filter (\<lambda>patient. tanggalJamMasuk patient \<ge> 1774396800000) (patients s)"
  let ?m = "fold countAdmission ?recent
              [(20537, ?c), (20538, ?c), (20539, ?c), (20540, ?c), (20541, ?c), (20542, ?c)]"
  let ?conv = "\<lambda>(date, data). \<lparr>trend_date = date, trend_count = cell_count data,
                                  trend_byCaraMasuk = cell_byCaraMasuk data\<rparr>"
  have keys: "map fst ?m = [20537, 20538, 20539, 20540, 20541, 20542]"
    by (simp add: fold_countAdmission_keys)
  have d: "map trend_date (map ?conv ?m) = map fst ?m"
    by (simp add: comp_def case_prod_beta)
  then have "sorted (map trend_date (map ?conv ?m))"
    unfolding keys by simp
  then have srt: "sort_key trend_date (map ?conv ?m) = map ?conv ?m"
    by (rule sort_key_id_if_sorted)
  have res: "getAdmissionTrend london_zone 1775044800000 s 7 = map ?conv ?m"
    unfolding getAdmissionTrend_def Let_def london_startDate london_dateMap srt by (rule refl)
  have dates: "map trend_date (getAdmissionTrend london_zone 1775044800000 s 7)
     = [20537, 20538, 20539, 20540, 20541, 20542]"
    unfolding res d keys by (rule refl)
  from arg_cong [OF dates, of length] have "length (getAdmissionTrend london_zone 1775044800000 s 7) = 6"
    by simp
  with dates show ?thesis by (rule conjI)
qed

section \<open>Record numbers\<close>

lemma digit_char_cases:
  assumes "d < 10"
  shows "digit_char d \<in> set ''0123456789''"
proof -
  from assms have "d < length ''0123456789''" by simp
  then have "''0123456789'' ! d \<in> set ''0123456789''" by (rule nth_mem)
  then show ?thesis by (simp only: digit_char_def)
qed

lemma is_digit_digit_char: "d < 10 \<Longrightarrow> is_digit (digit_char d)"
  using digit_char_cases [of d] by (auto simp: is_digit_def)

lemma not_whitespace_digit: "is_digit c \<Longrightarrow> \<not> is_whitespace c"
  by (auto simp: is_digit_def is_whitespace_def)

lemma not_sign_digit: "is_digit c \<Longrightarrow> c \<noteq> CHR ''-'' \<and> c \<noteq> CHR ''+''"
  by (auto simp: is_digit_def)

lemma digit_val_digit_char: "d < 10 \<Longrightarrow> digit_val (digit_char d) = d"
proof -
  assume "d < 10"
  then have "d = 0 \<or> d = 1 \<or> d = 2 \<or> d = 3 \<or> d = 4 \<or> d = 5 \<or> d = 6 \<or> d = 7
    \<or> d = 8 \<or> d = 9" by arith
  then show ?thesis
    by (elim disjE) (simp_all add: digit_val_def digit_char_def)
qed

lemma string_of_nat_digits: "list_all is_digit (string_of_nat n)"
proof (induction n rule: string_of_nat.induct)
  case (1 n)
  show ?case
  proof (cases "n < 10")
    case True
    then show ?thesis by (simp add: string_of_nat.simps [of n] is_digit_digit_char)
  next
    case False
    with 1 have "list_all is_digit (string_of_nat (n div 10))" by simp
    moreover have "is_digit (digit_char (n mod 10))" by (rule is_digit_digit_char) simp
    ultimately show ?thesis using False by (simp add: string_of_nat.simps [of n])
  qed
qed

lemma string_of_nat_nonempty: "string_of_nat n \<noteq> []"
  by (simp add: string_of_nat.simps [of n])

lemma digits_value_append: "digits_value (xs @ [c]) = 10 * digits_value xs + digit_val c"
  by (simp add: digits_value_def)

lemma digits_value_string_of_nat: "digits_value (string_of_nat n) = n"
proof (induction n rule: string_of_nat.induct)
  case (1 n)
  show ?case
  proof (cases "n < 10")
    case True
    then show ?thesis
      by (simp add: string_of_nat.simps [of n] digits_value_def digit_val_digit_char)
  next
    case False
    with 1 have "digits_value (string_of_nat (n div 10)) = n div 10" by simp
    moreover have "digit_val (digit_char (n mod 10)) = n mod 10"
      by (rule digit_val_digit_char) simp
    ultimately show ?thesis
      using False by (simp add: string_of_nat.simps [of n] digits_value_append)
  qed
qed

lemma digits_value_zeros: "digits_value (replicate k (CHR ''0'') @ ds) = digits_value ds"
proof -
  have "fold (\<lambda>c a. 10 * a + digit_val c) (replicate k (CHR ''0'')) 0 = 0"
    by (induction k) (simp_all add: digit_val_def)
  then show ?thesis by (simp add: digits_value_def)
qed

lemma parseInt_digits:
  assumes "list_all is_digit ds" and "ds \<noteq> []"
  shows "parseInt ds = Some (int (digits_value ds))"
proof -
  from assms obtain c cs where ds: "ds = c # cs" by (cases ds) auto
  with assms(1) have c: "is_digit c" by simp
  then have w: "dropWhile is_whitespace ds = ds"
    using ds not_whitespace_digit by simp
  from assms(1) have t: "takeWhile is_digit ds = ds"
    by (simp add: list_all_iff)
  from c not_sign_digit have s: "c \<noteq> CHR ''-''" "c \<noteq> CHR ''+''" by auto
  show ?thesis
    unfolding parseInt_def w Let_def using s t ds by simp
qed

lemma parseInt_padded:
  "parseInt (padStart k (CHR ''0'') (js_String (int n))) = Some (int n)"
proof -
  let ?s = "replicate (k - length (string_of_nat n)) (CHR ''0'') @ string_of_nat n"
  have "list_all is_digit ?s"
    using string_of_nat_digits [of n] by (auto simp: list_all_iff is_digit_def)
  moreover have "?s \<noteq> []" by (simp add: string_of_nat_nonempty)
  ultimately have "parseInt ?s = Some (int (digits_value ?s))" by (rule parseInt_digits)
  then show ?thesis
    by (simp add: padStart_def js_String_def digits_value_zeros digits_value_string_of_nat)
qed

lemma suffix_of_generated:
  "suffix_of prefix (prefix @ padStart k (CHR ''0'') (js_String (int n))) = Some (int n)"
  by (simp add: suffix_of_def startsWith_def parseInt_padded)

lemma maxNumber_step:
  "maxNumber prefix (xs @ [x]) =
     (case maxNumber prefix xs of
        None \<Rightarrow> None
      | Some m \<Rightarrow>
          (case suffix_of prefix x of
             None \<Rightarrow> Some m
           | Some v \<Rightarrow> if v > MAX_EXACT then None else if v > m then Some v else Some m))"
  by (simp add: maxNumber_def suffix_of_def split: option.splits)

























text \<open>At \<open>2 ^ 53\<close> the addition of one is absorbed by the rounding of doubles: the
  generator returns the number it found.\<close>

lemma boundary_string: "string_of_nat 9007199254740992 = ''9007199254740992''"
  by (simp add: string_of_nat.simps digit_char_def)

lemma generateNoRM_at_boundary:
  "generateNoRM y [RM_prefix y @ ''9007199254740992'']
     = Some (RM_prefix y @ ''9007199254740992'')"
proof -
  have p: "padStart 5 (CHR ''0'') (js_String (int 9007199254740992)) = ''9007199254740992''"
    by (simp add: padStart_def js_String_def boundary_string)
  have "suffix_of (RM_prefix y) (RM_prefix y @ ''9007199254740992'') = Some (int 9007199254740992)"
    using suffix_of_generated [of "RM_prefix y" 5 9007199254740992] by (simp only: p)
  then have "maxNumber (RM_prefix y) ([] @ [RM_prefix y @ ''9007199254740992'']) = Some 9007199254740992"
    unfolding maxNumber_step by (simp add: maxNumber_def MAX_EXACT_def)
  then show ?thesis
    using p by (simp add: generateNoRM_def RM_prefix_def Let_def plus_one_def MAX_EXACT_def)
qed







end
